theory Spec2Isabelle
  imports Complex_Main "HOL-Library.AList"
begin

section \<open>Python values used by the model\<close>

text \<open>
  Exceptions are values of \<open>error\<close>; a function that may raise returns \<open>error + 'a\<close>.
  The string is the name or the message the exception carries.
\<close>

datatype error =
    KeyError string
  | TypeError string
  | AttributeError string
  | NameError string
  | UnboundLocalError string
  | IndexError
  | DuplicateNameError string
  | MergeConflictError string
  | Exception string

text \<open>
  A Python \<open>dict\<close> keeps its keys in insertion order and assigning to a key that is
  present keeps the key's position: an association list with \<open>AList.update\<close>.
\<close>

type_synonym ('k, 'v) dict = "('k \<times> 'v) list"

definition dict_get :: "('k, 'v) dict \<Rightarrow> 'k \<Rightarrow> 'v option" where
  "dict_get d k = map_of d k"

definition dict_set :: "'k \<Rightarrow> 'v \<Rightarrow> ('k, 'v) dict \<Rightarrow> ('k, 'v) dict" where
  "dict_set k v d = AList.update k v d"

definition dict_in :: "'k \<Rightarrow> ('k, 'v) dict \<Rightarrow> bool" where
  "dict_in k d = (map_of d k \<noteq> None)"

definition dict_len :: "('k, 'v) dict \<Rightarrow> nat" where
  "dict_len d = length d"

text \<open>The values that end up in the file: strings, numbers, arrays of either, and None.\<close>

datatype val = VStr string | VNum real | VNums "real list" | VStrs "string list"
  | VNats "nat list" | VBool bool | VNone

text \<open>
  Sequencing: an exception ends the computation (\<open>bind_e\<close>), and so does a loop that
  does not return (\<open>None\<close>, in \<open>bind_r\<close>).
\<close>

definition bind_e :: "(error + 'a) \<Rightarrow> ('a \<Rightarrow> error + 'b) \<Rightarrow> error + 'b" where
  "bind_e m k = (case m of Inl err \<Rightarrow> Inl err | Inr x \<Rightarrow> k x)"

definition bind_r ::
  "(error + 'a) option \<Rightarrow> ('a \<Rightarrow> (error + 'b) option) \<Rightarrow> (error + 'b) option" where
  "bind_r m k = (case m of None \<Rightarrow> None | Some (Inl err) \<Rightarrow> Some (Inl err) | Some (Inr x) \<Rightarrow> k x)"

section \<open>The container model: objects in a store\<close>

text \<open>
  Containers are Python objects that point at each other (\<open>ts.parent = self\<close> while
  \<open>self\<close> holds \<open>ts\<close> in a dict), so they live in a store and are named by
  references. A reference carries the class of the object it names, which is what
  \<open>isinstance\<close> reads. Floats are read as reals: the code only orders them and tests
  them against zero.
\<close>

type_synonym addr = nat

datatype ref = FileRef addr | TsRef addr | ModuleRef addr | InterfaceRef addr
  | EpochRef addr | GroupRef addr

datatype ts_class = TimeSeries_cls | ElectricalSeries_cls | SpatialSeries_cls
  | AbstractFeatureSeries_cls

text \<open>
  The \<open>data\<close> and \<open>timestamps\<close> fields hold raw values or another TimeSeries. The
  fields of the subclasses (\<open>features\<close>, \<open>units\<close>, \<open>electrodes\<close>,
  \<open>reference_frame\<close>) are \<open>None\<close> on an object that has no such attribute.
\<close>

datatype ts_field = Values "real list" | SeriesLink addr | Unset

record TimeSeries =
  ts_class :: ts_class
  ts_name :: string
  ts_parent :: "ref option"
  ts_data :: ts_field
  ts_timestamps :: ts_field
  ts_starting_time :: "real option"
  ts_rate :: "real option"
  ts_ancestry :: string
  ts_help :: string
  ts_description :: string
  ts_source :: string
  ts_comments :: string
  ts_unit :: string
  ts_conversion :: "real option"
  ts_resolution :: "real option"
  ts_features :: "val option"
  ts_units :: "val option"
  ts_electrodes :: "val option"
  ts_reference_frame :: "val option"

record ElectrodeGroup =
  eg_name :: string
  eg_parent :: "ref option"

text \<open>
  The entry an epoch keeps for a series it references: \<open>nwb_file\<close> reads its
  \<open>count\<close>, \<open>idx_start\<close> and \<open>timeseries\<close>.
\<close>

record EpochTimeSeries =
  ets_count :: "nat option"
  ets_idx_start :: "nat option"
  ets_timeseries :: addr

record Epoch =
  ep_name :: string
  ep_start_time :: real
  ep_stop_time :: real
  ep_parent :: "ref option"
  ep_timeseries :: "(string, EpochTimeSeries) dict"

datatype iface_class = Interface_cls | Clustering_cls

record Interface =
  if_class :: iface_class
  if_name :: string
  if_parent :: "ref option"
  if_iface_type :: string
  if_help :: string
  if_source :: string
  if_peak_over_rms :: "(nat, real) dict option"
  if_num :: "val option"
  if_times :: "val option"

record Module =
  mod_name :: string
  mod_parent :: "ref option"
  mod_interfaces :: "(string, addr) dict"

text \<open>
  \<open>NWBFile.__init__\<close>: the three time-series dicts, \<open>modules\<close>, \<open>epochs\<close>, the
  electrode groups and their indices, and the recommended attributes. \<open>parent\<close> and
  \<open>container_source\<close> are the attributes of NWBContainer that write.py reads on a
  file.
\<close>

record NWBFile =
  filename :: string
  start_time :: string
  file_id :: string
  description :: string
  raw_data :: "(string, addr) dict"
  stimulus :: "(string, addr) dict"
  stimulus_template :: "(string, addr) dict"
  modules :: "(string, addr) dict"
  epochs :: "(string, addr) dict"
  ec_electrodes :: "(string, addr) dict"
  ec_electrode_idx :: "(string, nat) dict"
  experimenter :: "string option"
  experiment_description :: "string option"
  session_id :: "string option"
  lab :: "string option"
  institution :: "string option"
  file_parent :: "ref option"
  container_source :: string

record store =
  file_at :: "addr \<Rightarrow> NWBFile"
  series_at :: "addr \<Rightarrow> TimeSeries"
  group_at :: "addr \<Rightarrow> ElectrodeGroup"
  epoch_at :: "addr \<Rightarrow> Epoch"
  module_at :: "addr \<Rightarrow> Module"
  interface_at :: "addr \<Rightarrow> Interface"

section \<open>file.py: NWBFile\<close>

text \<open>
  \<open>__init__\<close>; \<open>now\<close> is \<open>datetime.utcnow()\<close> formatted as
  \<open>%Y-%m-%dT%H:%M:%SZ\<close>, \<open>src\<close> the container source. The five recommended
  attributes are optional arguments; this is the call that gives none of them.
\<close>

definition NWBFile_init ::
  "string \<Rightarrow> string \<Rightarrow> string \<Rightarrow> string \<Rightarrow> NWBFile" where
  "NWBFile_init file_name descr now src =
     \<lparr> filename = file_name, start_time = now, file_id = file_name @ '' '' @ now,
       description = descr,
       raw_data = [], stimulus = [], stimulus_template = [],
       modules = [], epochs = [], ec_electrodes = [], ec_electrode_idx = [],
       experimenter = None, experiment_description = None, session_id = None,
       lab = None, institution = None, file_parent = None, container_source = src \<rparr>"

text \<open>\<open>__exists(ts, d)\<close> is \<open>ts.name in d\<close>: membership is by name.\<close>

definition exists_in :: "store \<Rightarrow> addr \<Rightarrow> (string, addr) dict \<Rightarrow> bool" where
  "exists_in s ts d = dict_in (ts_name (series_at s ts)) d"

definition is_raw_data :: "addr \<Rightarrow> addr \<Rightarrow> store \<Rightarrow> bool" where
  "is_raw_data self ts s = exists_in s ts (raw_data (file_at s self))"

definition is_stimulus :: "addr \<Rightarrow> addr \<Rightarrow> store \<Rightarrow> bool" where
  "is_stimulus self ts s = exists_in s ts (stimulus (file_at s self))"

definition is_stimulus_template :: "addr \<Rightarrow> addr \<Rightarrow> store \<Rightarrow> bool" where
  "is_stimulus_template self ts s = exists_in s ts (stimulus_template (file_at s self))"

subsection \<open>Epochs and their time series\<close>

datatype epoch_arg = EpochName string | EpochObj addr
  | EpochList "epoch_arg list" | EpochTuple "epoch_arg list"

datatype ts_arg = TsName string | TsObj addr
  | TsList "ts_arg list" | TsTuple "ts_arg list"

text \<open>\<open>__get_epoch\<close>: an Epoch is itself, a name is looked up, anything else is a TypeError.\<close>

fun get_epoch :: "NWBFile \<Rightarrow> epoch_arg \<Rightarrow> error + addr" where
  "get_epoch f (EpochObj e) = Inr e"
| "get_epoch f (EpochName n) =
     (case dict_get (epochs f) n of
        None \<Rightarrow> Inl (KeyError n)
      | Some e \<Rightarrow> Inr e)"
| "get_epoch f (EpochList es) = Inl (TypeError ''list'')"
| "get_epoch f (EpochTuple es) = Inl (TypeError ''tuple'')"

text \<open>
  \<open>__get_timeseries\<close>: a name is looked up in the raw data, then the stimulus, then
  the stimulus templates.
\<close>

fun get_timeseries :: "NWBFile \<Rightarrow> ts_arg \<Rightarrow> error + addr" where
  "get_timeseries f (TsObj t) = Inr t"
| "get_timeseries f (TsName n) =
     (case dict_get (raw_data f) n of
        Some t \<Rightarrow> Inr t
      | None \<Rightarrow>
         (case dict_get (stimulus f) n of
            Some t \<Rightarrow> Inr t
          | None \<Rightarrow>
             (case dict_get (stimulus_template f) n of
                Some t \<Rightarrow> Inr t
              | None \<Rightarrow> Inl (KeyError n))))"
| "get_timeseries f (TsList ts) = Inl (TypeError ''list'')"
| "get_timeseries f (TsTuple ts) = Inl (TypeError ''tuple'')"

text \<open>A list comprehension over a call that may raise stops at the first exception.\<close>

fun map_result :: "('a \<Rightarrow> error + 'b) \<Rightarrow> 'a list \<Rightarrow> error + 'b list" where
  "map_result g [] = Inr []"
| "map_result g (x # xs) =
     (case g x of
        Inl e \<Rightarrow> Inl e
      | Inr y \<Rightarrow> (case map_result g xs of Inl e \<Rightarrow> Inl e | Inr ys \<Rightarrow> Inr (y # ys)))"

text \<open>
  Modelled from the spec: \<open>Epoch.add_timeseries\<close> (pynwb/epoch.py is not among the
  sources). The epoch maps the referenced series to an interval-membership record
  \<open>{count, start_index}\<close> that is null until computed.
\<close>

definition add_timeseries :: "addr \<Rightarrow> addr \<Rightarrow> store \<Rightarrow> store" where
  "add_timeseries ep ts s =
     s\<lparr>epoch_at := (epoch_at s)(ep := (epoch_at s ep)
          \<lparr>ep_timeseries :=
             dict_set (ts_name (series_at s ts))
               \<lparr>ets_count = None, ets_idx_start = None, ets_timeseries = ts\<rparr>
               (ep_timeseries (epoch_at s ep))\<rparr>)\<rparr>"

text \<open>\<open>for ep in ep_objs: for ts in ts_objs: ep.add_timeseries(ts)\<close>\<close>

definition add_all_timeseries :: "addr list \<Rightarrow> addr list \<Rightarrow> store \<Rightarrow> store" where
  "add_all_timeseries ep_objs ts_objs s =
     fold (\<lambda>ep s'. fold (\<lambda>ts s''. add_timeseries ep ts s'') ts_objs s') ep_objs s"

definition set_epoch_timeseries ::
  "addr \<Rightarrow> epoch_arg \<Rightarrow> ts_arg \<Rightarrow> store \<Rightarrow> (error + unit) \<times> store" where
  "set_epoch_timeseries self epoch timeseries s =
     (case (case epoch of
              EpochList es \<Rightarrow> map_result (get_epoch (file_at s self)) es
            | _ \<Rightarrow> map_result (get_epoch (file_at s self)) [epoch]) of
        Inl e \<Rightarrow> (Inl e, s)
      | Inr ep_objs \<Rightarrow>
         (case (case timeseries of
                  TsList ts \<Rightarrow> map_result (get_timeseries (file_at s self)) ts
                | _ \<Rightarrow> map_result (get_timeseries (file_at s self)) [timeseries]) of
            Inl e \<Rightarrow> (Inl e, s)
          | Inr ts_objs \<Rightarrow> (Inr (), add_all_timeseries ep_objs ts_objs s)))"

subsection \<open>Attaching time series\<close>

text \<open>The dict that \<open>__set_timeseries\<close> is handed: one of the file's three.\<close>

datatype ts_dict = RawData | Stimulus | StimulusTemplate

fun get_ts_dict :: "ts_dict \<Rightarrow> NWBFile \<Rightarrow> (string, addr) dict" where
  "get_ts_dict RawData f = raw_data f"
| "get_ts_dict Stimulus f = stimulus f"
| "get_ts_dict StimulusTemplate f = stimulus_template f"

fun put_ts_dict :: "ts_dict \<Rightarrow> string \<Rightarrow> addr \<Rightarrow> NWBFile \<Rightarrow> NWBFile" where
  "put_ts_dict RawData n t f = f\<lparr>raw_data := dict_set n t (raw_data f)\<rparr>"
| "put_ts_dict Stimulus n t f = f\<lparr>stimulus := dict_set n t (stimulus f)\<rparr>"
| "put_ts_dict StimulusTemplate n t f =
     f\<lparr>stimulus_template := dict_set n t (stimulus_template f)\<rparr>"

text \<open>\<open>if epoch:\<close> is false for None, the empty string and the empty list or tuple.\<close>

fun truthy_epoch :: "epoch_arg option \<Rightarrow> bool" where
  "truthy_epoch None = False"
| "truthy_epoch (Some (EpochName n)) = (n \<noteq> [])"
| "truthy_epoch (Some (EpochObj e)) = True"
| "truthy_epoch (Some (EpochList es)) = (es \<noteq> [])"
| "truthy_epoch (Some (EpochTuple es)) = (es \<noteq> [])"

text \<open>
  \<open>__set_timeseries\<close>: the assignment \<open>ts_dict[ts.name] = ts\<close> comes first and has no
  check, then \<open>ts.parent = self\<close>, then the epoch. An exception from the epoch leaves
  the first two in place.
\<close>

definition set_timeseries ::
  "addr \<Rightarrow> ts_dict \<Rightarrow> addr \<Rightarrow> epoch_arg option \<Rightarrow> store \<Rightarrow> (error + unit) \<times> store" where
  "set_timeseries self d ts epoch s =
     (let s1 = s\<lparr>file_at := (file_at s)
                  (self := put_ts_dict d (ts_name (series_at s ts)) ts (file_at s self))\<rparr>;
          s2 = s1\<lparr>series_at := (series_at s1)
                  (ts := (series_at s1 ts)\<lparr>ts_parent := Some (FileRef self)\<rparr>)\<rparr>
      in case epoch of
           None \<Rightarrow> (Inr (), s2)
         | Some ep \<Rightarrow>
            (if truthy_epoch epoch then set_epoch_timeseries self ep (TsObj ts) s2
             else (Inr (), s2)))"

text \<open>
  The three attach methods differ in the dict they hand on. Their decorator declares
  \<open>(str, Epoch, list, tuple)\<close> for the epoch of \<open>add_raw_timeseries\<close> and
  \<open>(str, Epoch)\<close> for the other two; the decorator is not among the sources, and the
  methods are modelled for every epoch argument.
\<close>

definition add_raw_timeseries ::
  "addr \<Rightarrow> addr \<Rightarrow> epoch_arg option \<Rightarrow> store \<Rightarrow> (error + unit) \<times> store" where
  "add_raw_timeseries self ts epoch s = set_timeseries self RawData ts epoch s"

definition add_stimulus ::
  "addr \<Rightarrow> addr \<Rightarrow> epoch_arg option \<Rightarrow> store \<Rightarrow> (error + unit) \<times> store" where
  "add_stimulus self ts epoch s = set_timeseries self Stimulus ts epoch s"

definition add_stimulus_template ::
  "addr \<Rightarrow> addr \<Rightarrow> epoch_arg option \<Rightarrow> store \<Rightarrow> (error + unit) \<times> store" where
  "add_stimulus_template self ts epoch s = set_timeseries self StimulusTemplate ts epoch s"

subsection \<open>Electrode groups\<close>

text \<open>
  \<open>set_electrode_group\<close>: the group's parent, then the two dicts; the index is the
  number of indices handed out so far, and it is returned.
\<close>

definition set_electrode_group :: "addr \<Rightarrow> addr \<Rightarrow> store \<Rightarrow> (error + nat) \<times> store" where
  "set_electrode_group self elec_grp s =
     (let s1 = s\<lparr>group_at := (group_at s)
                  (elec_grp := (group_at s elec_grp)\<lparr>eg_parent := Some (FileRef self)\<rparr>)\<rparr>;
          n = eg_name (group_at s1 elec_grp);
          f = file_at s1 self;
          f1 = f\<lparr>ec_electrodes := dict_set n elec_grp (ec_electrodes f)\<rparr>;
          f2 = f1\<lparr>ec_electrode_idx :=
                   dict_set n (dict_len (ec_electrode_idx f1)) (ec_electrode_idx f1)\<rparr>
      in ((case dict_get (ec_electrode_idx f2) n of
             None \<Rightarrow> Inl (KeyError n)
           | Some i \<Rightarrow> Inr i),
          s1\<lparr>file_at := (file_at s1)(self := f2)\<rparr>))"

text \<open>\<open>get_electrode_group_idx\<close> takes a name or an ElectrodeGroup, whose name it reads.\<close>

datatype group_arg = GroupName string | GroupObj addr

definition get_electrode_group_idx :: "addr \<Rightarrow> group_arg \<Rightarrow> store \<Rightarrow> nat option" where
  "get_electrode_group_idx self arg s =
     (let n = (case arg of GroupObj g \<Rightarrow> eg_name (group_at s g) | GroupName n' \<Rightarrow> n')
      in dict_get (ec_electrode_idx (file_at s self)) n)"

text \<open>Registering a sequence of groups, keeping what each call returned.\<close>

fun register_all :: "addr \<Rightarrow> addr list \<Rightarrow> store \<Rightarrow> (error + nat) list \<times> store" where
  "register_all self [] s = ([], s)"
| "register_all self (g # gs) s =
     (case set_electrode_group self g s of
        (r, s1) \<Rightarrow> (case register_all self gs s1 of (rs, s2) \<Rightarrow> (r # rs, s2)))"

section \<open>write.py: names, paths and builders\<close>

text \<open>
  write.py uses names that it neither defines nor imports, and attributes that the
  NWBFile of file.py does not have. The model is given both ways of reading them:
  \<^item> \<open>AsWritten\<close>: the module as it stands. Looking up such a name raises NameError
    (AttributeError for an attribute) at the point where Python evaluates it.
  \<^item> \<open>AsMeant\<close>: each such name is bound to what it refers to: \<open>_posixpath\<close> to
    posixpath, \<open>h5py\<close> to the module imported as \<open>_h5py\<close>, \<open>GroupBuilder\<close> and
    \<open>DatasetBuilder\<close> to the builders of h5tools, \<open>GroupBulder\<close> to \<open>GroupBuilder\<close>,
    \<open>HDFContainerRenderer\<close> to \<open>Hdf5ContainerRenderer\<close>, the bare
    \<open>__relative_location\<close> to the static method of that name, \<open>is_rawdata\<close> to
    \<open>is_raw_data\<close>, \<open>file_identifier\<close> to \<open>file_id\<close>, \<open>_timeseries\<close> to
    \<open>_timestamps\<close>, and \<open>unit\<close>, \<open>conversion\<close>, \<open>resolution\<close> to the container's.
  What has no definition anywhere in the sources is a parameter: the version string, the
  two defaults, the clock, the table \<open>_ts_locations\<close>, the file's \<open>timeseries\<close>
  attribute and the epoch renderer.
\<close>

datatype reading = AsWritten | AsMeant

datatype link_builder = SoftLinkBuilder string | HardLinkBuilder string
  | ExternalLinkBuilder string string

text \<open>A dataset: its payload, its attributes, and the keyword options it was made with.\<close>

datatype dataset_builder = DatasetBuilder val "(string, val) dict" "(string, val) dict"

datatype group_builder = GroupBuilder
  (groups: "(string \<times> group_builder) list")
  (datasets: "(string, dataset_builder) dict")
  (attributes: "(string, val) dict")
  (links: "(string, link_builder) dict")

record env =
  reading :: reading
  FILE_VERSION_STR :: string
  default_conversion :: real
  default_resolution :: real
  clock :: string
  ts_locations :: "(string, string list) dict"
  file_timeseries :: "NWBFile \<Rightarrow> (string, (string, addr) dict) dict"
  epoch_process :: "store \<Rightarrow> addr \<Rightarrow> error + group_builder"

text \<open>A name the module does not bind, and an attribute the object does not have.\<close>

definition unbound :: "env \<Rightarrow> string \<Rightarrow> (error + 'a) \<Rightarrow> (error + 'a)" where
  "unbound e n k = (if reading e = AsWritten then Inl (NameError n) else k)"

definition no_attr :: "env \<Rightarrow> string \<Rightarrow> (error + 'a) \<Rightarrow> (error + 'a)" where
  "no_attr e n k = (if reading e = AsWritten then Inl (AttributeError n) else k)"

subsection \<open>posixpath.join\<close>

text \<open>
  \<open>join(a, *p)\<close>: a component that starts with a slash replaces the path so far; an
  empty path or one that ends with a slash takes the component as it is; otherwise a
  slash is put between. Called with no argument, or with None, it raises TypeError.
\<close>

definition join_step :: "string \<Rightarrow> string \<Rightarrow> string" where
  "join_step path b =
     (if (case b of [] \<Rightarrow> False | c # _ \<Rightarrow> c = CHR ''/'') then b
      else if (case rev path of [] \<Rightarrow> True | c # _ \<Rightarrow> c = CHR ''/'') then path @ b
      else path @ ''/'' @ b)"

fun all_strings :: "string option list \<Rightarrow> string list option" where
  "all_strings [] = Some []"
| "all_strings (None # xs) = None"
| "all_strings (Some x # xs) =
     (case all_strings xs of None \<Rightarrow> None | Some ys \<Rightarrow> Some (x # ys))"

definition posixpath_join :: "string option list \<Rightarrow> error + string" where
  "posixpath_join args =
     (case all_strings args of
        None \<Rightarrow> Inl (TypeError ''expected str, bytes or os.PathLike object, not NoneType'')
      | Some [] \<Rightarrow> Inl (TypeError ''join() missing 1 required positional argument'')
      | Some (a # p) \<Rightarrow> Inr (foldl join_step a p))"

subsection \<open>Builders\<close>

text \<open>
  Modelled from the spec: the builders of h5tools (not among the sources). A group has
  named children; \<open>add_group\<close>, \<open>add_dataset\<close>, \<open>add_attribute\<close> and the three
  \<open>add_*_link\<close> fail with DuplicateNameError if the name already exists at that level.
  \<open>set_attribute\<close>, which the spec does not list, is read as an assignment.
\<close>

definition empty_group :: group_builder where
  "empty_group = GroupBuilder [] [] [] []"

definition has_child :: "string \<Rightarrow> group_builder \<Rightarrow> bool" where
  "has_child n b =
     (dict_in n (groups b) \<or> dict_in n (datasets b) \<or> dict_in n (attributes b)
      \<or> dict_in n (links b))"

definition add_group :: "string \<Rightarrow> group_builder \<Rightarrow> group_builder \<Rightarrow> error + group_builder" where
  "add_group n g b =
     (if has_child n b then Inl (DuplicateNameError n)
      else Inr (GroupBuilder (groups b @ [(n, g)]) (datasets b) (attributes b) (links b)))"

definition add_dataset ::
  "string \<Rightarrow> dataset_builder \<Rightarrow> group_builder \<Rightarrow> error + group_builder" where
  "add_dataset n d b =
     (if has_child n b then Inl (DuplicateNameError n)
      else Inr (GroupBuilder (groups b) (datasets b @ [(n, d)]) (attributes b) (links b)))"

definition add_link :: "string \<Rightarrow> link_builder \<Rightarrow> group_builder \<Rightarrow> error + group_builder" where
  "add_link n l b =
     (if has_child n b then Inl (DuplicateNameError n)
      else Inr (GroupBuilder (groups b) (datasets b) (attributes b) (links b @ [(n, l)])))"

definition add_soft_link :: "string \<Rightarrow> string \<Rightarrow> group_builder \<Rightarrow> error + group_builder" where
  "add_soft_link n path b = add_link n (SoftLinkBuilder path) b"

definition add_external_link ::
  "string \<Rightarrow> string \<Rightarrow> string \<Rightarrow> group_builder \<Rightarrow> error + group_builder" where
  "add_external_link n file path b = add_link n (ExternalLinkBuilder file path) b"

definition set_attribute :: "string \<Rightarrow> val \<Rightarrow> group_builder \<Rightarrow> group_builder" where
  "set_attribute n v b =
     GroupBuilder (groups b) (datasets b) (dict_set n v (attributes b)) (links b)"

section \<open>write.py: the path resolver\<close>

definition parent_of :: "store \<Rightarrow> ref \<Rightarrow> ref option" where
  "parent_of s r =
     (case r of
        FileRef a \<Rightarrow> file_parent (file_at s a)
      | TsRef a \<Rightarrow> ts_parent (series_at s a)
      | ModuleRef a \<Rightarrow> mod_parent (module_at s a)
      | InterfaceRef a \<Rightarrow> if_parent (interface_at s a)
      | EpochRef a \<Rightarrow> ep_parent (epoch_at s a)
      | GroupRef a \<Rightarrow> eg_parent (group_at s a))"

text \<open>
  \<open>__relative_location(parent, child)\<close>. Under a file, a TimeSeries is asked for with
  \<open>parent.is_rawdata(child)\<close>, a method that the NWBFile of file.py does not have (it
  has \<open>is_raw_data\<close>); a series in none of the three dicts leaves \<open>relpath\<close> None for
  \<open>join\<close>. A pair that no branch returns for falls through to the final \<open>raise\<close>.
\<close>

definition relative_location :: "env \<Rightarrow> store \<Rightarrow> ref \<Rightarrow> ref \<Rightarrow> error + string" where
  "relative_location e s parent child =
     (case child of
        FileRef c \<Rightarrow> Inr []
      | _ \<Rightarrow>
        (case parent of
           FileRef p \<Rightarrow>
             (case child of
                TsRef c \<Rightarrow>
                  no_attr e ''is_rawdata''
                    (let relpath =
                       (if is_raw_data p c s then Some ''acquisition/timeseries''
                        else if is_stimulus p c s then Some ''stimulus/presentation''
                        else if is_stimulus_template p c s then Some ''stimulus/templates''
                        else None)
                     in unbound e ''_posixpath''
                          (posixpath_join [relpath, Some (ts_name (series_at s c))]))
              | ModuleRef c \<Rightarrow>
                  unbound e ''_posixpath''
                    (posixpath_join [Some ''processing'', Some (mod_name (module_at s c))])
              | _ \<Rightarrow> Inl (Exception ''No known location''))
         | ModuleRef p \<Rightarrow>
             (case child of
                InterfaceRef c \<Rightarrow> Inr (if_name (interface_at s c))
              | _ \<Rightarrow> Inl (Exception ''No known location''))
         | InterfaceRef p \<Rightarrow>
             (case child of
                TsRef c \<Rightarrow> Inr (ts_name (series_at s c))
              | _ \<Rightarrow> Inl (Exception ''No known location''))
         | _ \<Rightarrow> Inl (Exception ''No known location'')))"

text \<open>
  The loop of \<open>get_container_location\<close>. It calls the bare name
  \<open>__relative_location\<close>, which inside the class body is the global
  \<open>_Hdf5ContainerRenderer__relative_location\<close>: the module has no such global. In the
  loop body \<open>top_container = curr\<close> comes before \<open>curr = curr.parent\<close> (\<open>cur\<close>
  below). A parent chain
  that never ends keeps the loop running: the result is then \<open>None\<close>.
\<close>

partial_function (option) parent_walk ::
  "env \<Rightarrow> store \<Rightarrow> ref \<Rightarrow> ref \<Rightarrow> string list \<Rightarrow> (error + ref \<times> string list) option" where
  "parent_walk e s cur top_container location =
     (case parent_of s cur of
        None \<Rightarrow> Some (Inr (top_container, location))
      | Some p \<Rightarrow>
         (case unbound e ''_Hdf5ContainerRenderer__relative_location''
                 (relative_location e s p cur) of
            Inl err \<Rightarrow> Some (Inl err)
          | Inr seg \<Rightarrow> parent_walk e s p cur (location @ [seg])))"

declare parent_walk.simps [code]

definition get_container_location ::
  "env \<Rightarrow> store \<Rightarrow> ref \<Rightarrow> (error + string \<times> string) option" where
  "get_container_location e s container =
     (case parent_walk e s container container [] of
        None \<Rightarrow> None
      | Some (Inl err) \<Rightarrow> Some (Inl err)
      | Some (Inr (top_container, location)) \<Rightarrow>
         Some (case top_container of
                 FileRef f \<Rightarrow>
                   (case unbound e ''_posixpath'' (posixpath_join (map Some (rev location))) of
                      Inl err \<Rightarrow> Inl err
                    | Inr container_path \<Rightarrow>
                        Inr (container_source (file_at s f), container_path))
               | _ \<Rightarrow> Inl (Exception ''highest container not a file'')))"

section \<open>write.py: rendering a TimeSeries\<close>

definition payload :: "ts_field \<Rightarrow> val" where
  "payload f = (case f of Values xs \<Rightarrow> VNums xs | _ \<Rightarrow> VNone)"

definition opt_num :: "real option \<Rightarrow> val" where
  "opt_num x = (case x of None \<Rightarrow> VNone | Some r \<Rightarrow> VNum r)"

text \<open>\<open>x if x else d\<close>: None and zero are false.\<close>

definition or_default :: "real option \<Rightarrow> real \<Rightarrow> real" where
  "or_default x d = (case x of None \<Rightarrow> d | Some r \<Rightarrow> (if r \<noteq> 0 then r else d))"

text \<open>
  The data of \<open>time_series\<close>. A \<open>data\<close> field that is a TimeSeries makes a link: both
  locations are resolved, and the link is external when the two files differ, soft
  otherwise. Raw data is written with \<open>unit\<close>, \<open>conversion\<close> and \<open>resolution\<close>, which
  are free names in the function.
\<close>

definition set_data :: "env \<Rightarrow> store \<Rightarrow> addr \<Rightarrow> group_builder \<Rightarrow> (error + group_builder) option" where
  "set_data e s c builder =
     (case ts_data (series_at s c) of
        SeriesLink r \<Rightarrow>
          bind_r (get_container_location e s (TsRef c)) (\<lambda>(container_file, container_path).
          bind_r (get_container_location e s (TsRef r)) (\<lambda>(reference_file, reference_path).
          bind_r (Some (unbound e ''_posixpath''
                          (posixpath_join [Some reference_path, Some ''data'']))) (\<lambda>data_path.
            Some (if container_file \<noteq> reference_file
                  then add_external_link ''data'' reference_file data_path builder
                  else add_soft_link ''data'' data_path builder))))
      | d \<Rightarrow>
          Some (unbound e ''unit''
            (add_dataset ''data''
               (DatasetBuilder (payload d)
                  [(''unit'', VStr (ts_unit (series_at s c))),
                   (''conversion'',
                      VNum (or_default (ts_conversion (series_at s c)) (default_conversion e))),
                   (''resolution'',
                      VNum (or_default (ts_resolution (series_at s c)) (default_resolution e)))]
                  [])
               builder)))"

text \<open>
  The timestamps. \<open>if container.starting_time:\<close> is false for None and for 0.0. The
  linked branch reads the referenced series from \<open>container._timeseries\<close> and names its
  external link \<open>data\<close>.
\<close>

definition set_timestamps ::
  "env \<Rightarrow> store \<Rightarrow> addr \<Rightarrow> group_builder \<Rightarrow> (error + group_builder) option" where
  "set_timestamps e s c builder =
     (if (case ts_starting_time (series_at s c) of None \<Rightarrow> False | Some t0 \<Rightarrow> t0 \<noteq> 0)
      then Some (add_dataset ''starting_time''
                   (DatasetBuilder (opt_num (ts_starting_time (series_at s c)))
                      [(''rate'', opt_num (ts_rate (series_at s c))), (''unit'', VStr ''Seconds'')]
                      [])
                   builder)
      else
        (case ts_timestamps (series_at s c) of
           SeriesLink r \<Rightarrow>
             bind_r (get_container_location e s (TsRef c)) (\<lambda>(container_file, container_path).
             bind_r (Some (no_attr e ''_timeseries'' (Inr r))) (\<lambda>r'.
             bind_r (get_container_location e s (TsRef r')) (\<lambda>(reference_file, reference_path).
             bind_r (Some (unbound e ''_posixpath''
                             (posixpath_join [Some reference_path, Some ''timestamps''])))
               (\<lambda>timestamps_path.
                 Some (if container_file \<noteq> reference_file
                       then add_external_link ''data'' reference_file timestamps_path builder
                       else add_soft_link ''timestamps'' timestamps_path builder)))))
         | d \<Rightarrow>
             Some (add_dataset ''timestamps''
                     (DatasetBuilder (payload d)
                        [(''interval'', VNum 1), (''unit'', VStr ''Seconds'')] [])
                     builder)))"

definition time_series :: "env \<Rightarrow> store \<Rightarrow> addr \<Rightarrow> (error + group_builder) option" where
  "time_series e s c =
     bind_r (Some (unbound e ''GroupBuilder'' (Inr empty_group))) (\<lambda>b0.
       let b1 = set_attribute ''ancestry'' (VStr (ts_ancestry (series_at s c))) b0;
           b2 = set_attribute ''help'' (VStr (ts_help (series_at s c))) b1;
           b3 = set_attribute ''description'' (VStr (ts_description (series_at s c))) b2;
           b4 = set_attribute ''source'' (VStr (ts_source (series_at s c))) b3;
           b5 = set_attribute ''comments'' (VStr (ts_comments (series_at s c))) b4;
           b6 = set_attribute ''neurodata_type'' (VStr ''TimeSeries'') b5
       in bind_r (set_data e s c b6) (\<lambda>b7. set_timestamps e s c b7))"

section \<open>write.py: the renderer\<close>

subsection \<open>Merging builders\<close>

text \<open>
  Modelled from the spec: \<open>deep_update\<close> of a group builder (the spec's
  \<open>deep_merge\<close>; h5tools is not among the sources). Children with different names are
  united, groups of one name are merged recursively, and a dataset, attribute or link
  that is declared again with another value is a MergeConflictError.
\<close>

fun merge_named :: "(string \<times> 'v) list \<Rightarrow> (string \<times> 'v) list \<Rightarrow> error + (string \<times> 'v) list" where
  "merge_named xs [] = Inr xs"
| "merge_named xs ((n, v) # rest) =
     (case map_of xs n of
        None \<Rightarrow> merge_named (xs @ [(n, v)]) rest
      | Some v' \<Rightarrow> (if v' = v then merge_named xs rest else Inl (MergeConflictError n)))"

function deep_update :: "group_builder \<Rightarrow> group_builder \<Rightarrow> error + group_builder"
  and merge_groups :: "(string \<times> group_builder) list \<Rightarrow> (string \<times> group_builder) list \<Rightarrow>
     error + (string \<times> group_builder) list" where
  "deep_update (GroupBuilder g1 d1 a1 l1) (GroupBuilder g2 d2 a2 l2) =
     (case merge_groups g1 g2 of
        Inl err \<Rightarrow> Inl err
      | Inr g \<Rightarrow>
         bind_e (merge_named d1 d2) (\<lambda>d.
         bind_e (merge_named a1 a2) (\<lambda>a.
         bind_e (merge_named l1 l2) (\<lambda>l. Inr (GroupBuilder g d a l)))))"
| "merge_groups g1 [] = Inr g1"
| "merge_groups g1 ((n, b) # rest) =
     (case map_of g1 n of
        None \<Rightarrow> merge_groups (g1 @ [(n, b)]) rest
      | Some a \<Rightarrow>
         (case deep_update a b of
            Inl err \<Rightarrow> Inl err
          | Inr m \<Rightarrow> merge_groups (AList.update n m g1) rest))"
  by pat_completeness auto
termination
  by (relation "measure (\<lambda>x. case x of
        Inl (a, b) \<Rightarrow> 2 * size b + 1
      | Inr (g1, g2) \<Rightarrow> 2 * size_list (size_prod (\<lambda>x. 0) size) g2)") auto

text \<open>\<open>for builder in result[1:]: ret.deep_update(builder)\<close>\<close>

fun deep_update_all :: "group_builder \<Rightarrow> group_builder list \<Rightarrow> error + group_builder" where
  "deep_update_all ret [] = Inr ret"
| "deep_update_all ret (b # bs) =
     (case deep_update ret b of Inl err \<Rightarrow> Inl err | Inr ret' \<Rightarrow> deep_update_all ret' bs)"

subsection \<open>Classes and the order of their render procedures\<close>

datatype ctype = Object_t | NWBContainer_t | NWBFile_t | TimeSeries_t | ElectricalSeries_t
  | SpatialSeries_t | AbstractFeatureSeries_t | Module_t | Interface_t | Clustering_t
  | Epoch_t | ElectrodeGroup_t

definition class_of :: "store \<Rightarrow> ref \<Rightarrow> ctype" where
  "class_of s r =
     (case r of
        FileRef a \<Rightarrow> NWBFile_t
      | TsRef a \<Rightarrow>
         (case ts_class (series_at s a) of
            TimeSeries_cls \<Rightarrow> TimeSeries_t
          | ElectricalSeries_cls \<Rightarrow> ElectricalSeries_t
          | SpatialSeries_cls \<Rightarrow> SpatialSeries_t
          | AbstractFeatureSeries_cls \<Rightarrow> AbstractFeatureSeries_t)
      | ModuleRef a \<Rightarrow> Module_t
      | InterfaceRef a \<Rightarrow>
         (case if_class (interface_at s a) of
            Interface_cls \<Rightarrow> Interface_t
          | Clustering_cls \<Rightarrow> Clustering_t)
      | EpochRef a \<Rightarrow> Epoch_t
      | GroupRef a \<Rightarrow> ElectrodeGroup_t)"

text \<open>
  Modelled from the spec: the method resolution order of each class, from the class
  itself to \<open>object\<close> (file.py declares \<open>class NWBFile(NWBContainer)\<close>; the other
  classes are not among the sources, the spec gives ElectricalSeries, SpatialSeries and
  AbstractFeatureSeries as variants of TimeSeries and Clustering as a variant of
  Interface).
\<close>

fun mro :: "ctype \<Rightarrow> ctype list" where
  "mro Object_t = [Object_t]"
| "mro NWBContainer_t = [NWBContainer_t, Object_t]"
| "mro NWBFile_t = [NWBFile_t, NWBContainer_t, Object_t]"
| "mro TimeSeries_t = [TimeSeries_t, NWBContainer_t, Object_t]"
| "mro ElectricalSeries_t = [ElectricalSeries_t, TimeSeries_t, NWBContainer_t, Object_t]"
| "mro SpatialSeries_t = [SpatialSeries_t, TimeSeries_t, NWBContainer_t, Object_t]"
| "mro AbstractFeatureSeries_t =
     [AbstractFeatureSeries_t, TimeSeries_t, NWBContainer_t, Object_t]"
| "mro Module_t = [Module_t, NWBContainer_t, Object_t]"
| "mro Interface_t = [Interface_t, NWBContainer_t, Object_t]"
| "mro Clustering_t = [Clustering_t, Interface_t, NWBContainer_t, Object_t]"
| "mro Epoch_t = [Epoch_t, NWBContainer_t, Object_t]"
| "mro ElectrodeGroup_t = [ElectrodeGroup_t, NWBContainer_t, Object_t]"

text \<open>\<open>get_object_properties\<close>: \<open>mro[:-1]\<close> drops \<open>object\<close>, and the rest is reversed.\<close>

definition get_object_properties :: "store \<Rightarrow> ref \<Rightarrow> ctype list" where
  "get_object_properties s container = rev (butlast (mro (class_of s container)))"

type_synonym procedure = "env \<Rightarrow> store \<Rightarrow> ref \<Rightarrow> (error + group_builder) option"

text \<open>
  Modelled from the spec: \<open>BaseObjectHandler.process\<close> (io/utils.py is not among the
  sources). It collects the procedures registered for the types that
  \<open>get_object_properties\<close> lists, in that order, and runs each on the container.
\<close>

fun run_procedures ::
  "procedure list \<Rightarrow> env \<Rightarrow> store \<Rightarrow> ref \<Rightarrow> (error + group_builder list) option" where
  "run_procedures [] e s c = Some (Inr [])"
| "run_procedures (p # ps) e s c =
     bind_r (p e s c) (\<lambda>b. bind_r (run_procedures ps e s c) (\<lambda>bs. Some (Inr (b # bs))))"

definition collect_procedures :: "(ctype \<Rightarrow> procedure list) \<Rightarrow> store \<Rightarrow> ref \<Rightarrow> procedure list" where
  "collect_procedures registry s c = concat (map registry (get_object_properties s c))"

definition base_process ::
  "(ctype \<Rightarrow> procedure list) \<Rightarrow> env \<Rightarrow> store \<Rightarrow> ref \<Rightarrow> (error + group_builder list) option" where
  "base_process registry e s c = run_procedures (collect_procedures registry s c) e s c"

text \<open>
  \<open>Hdf5ContainerRenderer.process\<close>. The class it hands to \<open>super\<close> is written
  \<open>HDFContainerRenderer\<close>, a name the module does not have. \<open>result[0]\<close> of an empty
  list is an IndexError.
\<close>

definition process ::
  "(ctype \<Rightarrow> procedure list) \<Rightarrow> env \<Rightarrow> store \<Rightarrow> ref \<Rightarrow> (error + group_builder) option" where
  "process registry e s c =
     bind_r (Some (unbound e ''HDFContainerRenderer'' (Inr ()))) (\<lambda>_.
     bind_r (base_process registry e s c) (\<lambda>result.
       case result of
         [] \<Rightarrow> Some (Inl IndexError)
       | ret # rest \<Rightarrow> Some (deep_update_all ret rest)))"

subsection \<open>The procedures of the series, interfaces and modules\<close>

text \<open>
  Each procedure starts with \<open>GroupBuilder()\<close>. A procedure reads attributes of the
  container; on an object that has no such attribute that is an AttributeError.
\<close>

definition time_series_proc :: procedure where
  "time_series_proc e s c =
     (case c of TsRef a \<Rightarrow> time_series e s a | _ \<Rightarrow> Some (Inl (AttributeError ''ancestry'')))"

definition add_attr_dataset ::
  "string \<Rightarrow> string \<Rightarrow> val option \<Rightarrow> group_builder \<Rightarrow> error + group_builder" where
  "add_attr_dataset n attr v b =
     (case v of
        None \<Rightarrow> Inl (AttributeError attr)
      | Some x \<Rightarrow> add_dataset n (DatasetBuilder x [] []) b)"

definition abstract_feature_series :: procedure where
  "abstract_feature_series e s c =
     (case c of
        TsRef a \<Rightarrow>
          Some (bind_e (unbound e ''GroupBuilder'' (Inr empty_group)) (\<lambda>b.
                bind_e (add_attr_dataset ''features'' ''features'' (ts_features (series_at s a)) b)
                  (add_attr_dataset ''feature_units'' ''units'' (ts_units (series_at s a)))))
      | _ \<Rightarrow> Some (Inl (AttributeError ''features'')))"

definition electrical_series :: procedure where
  "electrical_series e s c =
     (case c of
        TsRef a \<Rightarrow>
          Some (bind_e (unbound e ''GroupBuilder'' (Inr empty_group))
                  (add_attr_dataset ''electrode_idx'' ''electrodes''
                     (ts_electrodes (series_at s a))))
      | _ \<Rightarrow> Some (Inl (AttributeError ''electrodes'')))"

definition spatial_series :: procedure where
  "spatial_series e s c =
     (case c of
        TsRef a \<Rightarrow>
          Some (bind_e (unbound e ''GroupBuilder'' (Inr empty_group))
                  (add_attr_dataset ''reference_frame'' ''reference_frame''
                     (ts_reference_frame (series_at s a))))
      | _ \<Rightarrow> Some (Inl (AttributeError ''reference_frame'')))"

definition interface :: procedure where
  "interface e s c =
     (case c of
        InterfaceRef a \<Rightarrow>
          Some (bind_e (unbound e ''GroupBuilder'' (Inr empty_group)) (\<lambda>b0.
            let b1 = set_attribute ''help'' (VStr (if_help (interface_at s a))) b0;
                b2 = set_attribute ''neurodata_type'' (VStr ''Interface'') b1
            in Inr (set_attribute ''source'' (VStr (if_source (interface_at s a))) b2)))
      | _ \<Rightarrow> Some (Inl (AttributeError ''help'')))"

definition clustering :: procedure where
  "clustering e s c =
     (case c of
        InterfaceRef a \<Rightarrow>
          Some (bind_e (unbound e ''GroupBuilder'' (Inr empty_group)) (\<lambda>b.
            case if_peak_over_rms (interface_at s a) of
              None \<Rightarrow> Inl (AttributeError ''peak_over_rms'')
            | Some d \<Rightarrow>
               (let cluster_nums = sort (map fst d);
                    peak_over_rms = map (\<lambda>n. case map_of d n of Some r \<Rightarrow> r | None \<Rightarrow> 0)
                                      cluster_nums
                in bind_e (add_dataset ''cluster_nums''
                             (DatasetBuilder (VNats cluster_nums) [] []) b) (\<lambda>b1.
                   bind_e (add_dataset ''peak_over_rms''
                             (DatasetBuilder (VNums peak_over_rms) [] []) b1) (\<lambda>b2.
                   bind_e (add_attr_dataset ''num'' ''num'' (if_num (interface_at s a)) b2)
                     (add_attr_dataset ''times'' ''times'' (if_times (interface_at s a))))))))
      | _ \<Rightarrow> Some (Inl (AttributeError ''peak_over_rms'')))"

text \<open>
  The procedures are registered on one table by the decorators, in the order of the
  file. A procedure that renders children is defined against the part of the table
  that holds every class its children can have.
\<close>

definition series_registry :: "ctype \<Rightarrow> procedure list" where
  "series_registry t =
     (case t of
        TimeSeries_t \<Rightarrow> [time_series_proc, abstract_feature_series]
      | ElectricalSeries_t \<Rightarrow> [electrical_series]
      | SpatialSeries_t \<Rightarrow> [spatial_series]
      | Interface_t \<Rightarrow> [interface]
      | Clustering_t \<Rightarrow> [clustering]
      | _ \<Rightarrow> [])"

text \<open>A loop whose body may raise or not return.\<close>

fun fold_r :: "('x \<Rightarrow> 'a \<Rightarrow> (error + 'a) option) \<Rightarrow> 'x list \<Rightarrow> 'a \<Rightarrow> (error + 'a) option" where
  "fold_r f [] acc = Some (Inr acc)"
| "fold_r f (x # xs) acc = bind_r (f x acc) (fold_r f xs)"

definition module :: procedure where
  "module e s c =
     (case c of
        ModuleRef a \<Rightarrow>
          bind_r (Some (unbound e ''GroupBuilder'' (Inr empty_group)))
            (fold_r (\<lambda>(name, iface) builder.
                bind_r (process series_registry e s (InterfaceRef iface)) (\<lambda>interface_builder.
                  Some (add_group (if_iface_type (interface_at s iface)) interface_builder
                          builder)))
              (mod_interfaces (module_at s a)))
      | _ \<Rightarrow> Some (Inl (AttributeError ''interfaces'')))"

definition module_registry :: "ctype \<Rightarrow> procedure list" where
  "module_registry t = (case t of Module_t \<Rightarrow> [module] | _ \<Rightarrow> series_registry t)"

section \<open>write.py: rendering the file\<close>

subsection \<open>TimeFinder\<close>

text \<open>
  \<open>TimeFinder\<close> has \<open>__init__(self, time_intervals)\<close> and a \<open>__call__(self, chunk)\<close>
  whose body is \<open>pass\<close>: a call returns None, for every chunk. The constructor needs its
  argument, and the class has no other method.
\<close>

record TimeFinder =
  time_intervals :: "(real \<times> real) list"

definition TimeFinder_init :: "(real \<times> real) list option \<Rightarrow> error + TimeFinder" where
  "TimeFinder_init arg =
     (case arg of
        None \<Rightarrow> Inl (TypeError ''__init__() missing 1 required positional argument'')
      | Some ti \<Rightarrow> Inr \<lparr> time_intervals = ti \<rparr>)"

definition TimeFinder_call :: "TimeFinder \<Rightarrow> real list \<Rightarrow> EpochTimeSeries option" where
  "TimeFinder_call tf chunk = None"

definition add_interval :: "TimeFinder \<Rightarrow> real \<Rightarrow> real \<Rightarrow> error + TimeFinder" where
  "add_interval tf start stop = Inl (AttributeError ''add_interval'')"

subsection \<open>Children of a builder by path\<close>

text \<open>
  \<open>builder['epochs']\<close> hands out the child itself, and \<open>add_group\<close> on it changes the
  tree: \<open>modify_at\<close> applies a change to the group at a path, with a KeyError where the
  path leaves the tree.
\<close>

fun modify_at ::
  "string list \<Rightarrow> (group_builder \<Rightarrow> error + group_builder) \<Rightarrow> group_builder \<Rightarrow>
     error + group_builder" where
  "modify_at [] f b = f b"
| "modify_at (n # path) f b =
     (case map_of (groups b) n of
        None \<Rightarrow> Inl (KeyError n)
      | Some g \<Rightarrow>
         (case modify_at path f g of
            Inl err \<Rightarrow> Inl err
          | Inr g' \<Rightarrow>
              Inr (GroupBuilder (AList.update n g' (groups b)) (datasets b) (attributes b)
                     (links b))))"

text \<open>\<open>GroupBuilder({...})\<close>: a group made from a dict of empty groups.\<close>

definition group_of :: "string list \<Rightarrow> group_builder" where
  "group_of names = GroupBuilder (map (\<lambda>n. (n, empty_group)) names) [] [] []"

subsection \<open>nwb_file\<close>

text \<open>The fixed top-level groups, lines 165 to 190.\<close>

definition top_level_layout :: "group_builder \<Rightarrow> error + group_builder" where
  "top_level_layout builder =
     bind_e (add_group ''general''
               (group_of [''devices'', ''extracellular_ephys'', ''intracellular_ephys'',
                          ''optogenetics'', ''optophysiology'', ''specifications'', ''subject''])
               builder) (\<lambda>b1.
     bind_e (add_group ''stimulus'' (group_of [''template'', ''presentation'']) b1) (\<lambda>b2.
     bind_e (add_group ''acquisition'' (group_of [''timeseries'', ''images'']) b2) (\<lambda>b3.
     bind_e (add_group ''epochs'' empty_group b3) (\<lambda>b4.
     bind_e (add_group ''processing'' empty_group b4) (\<lambda>b5.
     add_group ''analysis'' empty_group b5)))))"

text \<open>
  The root datasets, lines 192 to 196. \<open>file_create_date\<close> holds \<open>time.ctime()\<close>, the
  clock read when the file is rendered. The NWBFile of file.py has \<open>file_id\<close> and no
  \<open>file_identifier\<close>.
\<close>

definition root_datasets :: "env \<Rightarrow> NWBFile \<Rightarrow> group_builder \<Rightarrow> error + group_builder" where
  "root_datasets e f builder =
     bind_e (add_dataset ''nwb_version'' (DatasetBuilder (VStr (FILE_VERSION_STR e)) [] [])
               builder) (\<lambda>b1.
     bind_e (no_attr e ''file_identifier''
               (add_dataset ''identifier'' (DatasetBuilder (VStr (file_id f)) [] []) b1)) (\<lambda>b2.
     bind_e (add_dataset ''session_description''
               (DatasetBuilder (VStr (description f)) [] []) b2) (\<lambda>b3.
     bind_e (add_dataset ''file_create_date''
               (DatasetBuilder (VStrs [clock e]) []
                  [(''maxshape'', VNone), (''chunks'', VBool True), (''dtype'', VStr ''vlen bytes'')])
               b3) (\<lambda>b4.
     add_dataset ''session_start_time'' (DatasetBuilder (VStr (start_time f)) [] []) b4))))"

text \<open>
  The interval pass, lines 198 to 213. An entry counts as lacking its index when
  \<open>count and idx_start\<close> is false (None or 0). For such an entry the location of the
  series is resolved, a \<open>TimeFinder()\<close> is constructed with no argument for
  \<open>setdefault\<close>, and \<open>add_interval\<close> is called with the epoch's start time twice.
\<close>

definition truthy_nat :: "nat option \<Rightarrow> bool" where
  "truthy_nat x = (case x of None \<Rightarrow> False | Some n \<Rightarrow> n \<noteq> 0)"

type_synonym finders = "(string \<times> string, TimeFinder) dict"

definition index_entry ::
  "env \<Rightarrow> store \<Rightarrow> addr \<Rightarrow> string \<times> EpochTimeSeries \<Rightarrow> finders \<Rightarrow> (error + finders) option" where
  "index_entry e s ep entry finders =
     (if \<not> (truthy_nat (ets_count (snd entry)) \<and> truthy_nat (ets_idx_start (snd entry)))
      then
        bind_r (get_container_location e s (TsRef (ets_timeseries (snd entry)))) (\<lambda>ts_path.
        bind_r (Some (TimeFinder_init None)) (\<lambda>fresh.
          let tf = (case dict_get finders ts_path of None \<Rightarrow> fresh | Some t \<Rightarrow> t);
              finders' = (if dict_in ts_path finders then finders
                          else dict_set ts_path fresh finders)
          in Some (bind_e (add_interval tf (ep_start_time (epoch_at s ep))
                             (ep_start_time (epoch_at s ep)))
                     (\<lambda>tf'. Inr (dict_set ts_path tf' finders')))))
      else Some (Inr finders))"

definition epoch_step ::
  "env \<Rightarrow> store \<Rightarrow> string \<times> addr \<Rightarrow> group_builder \<times> finders \<Rightarrow>
     (error + group_builder \<times> finders) option" where
  "epoch_step e s item acc =
     bind_r (Some (epoch_process e s (snd item))) (\<lambda>epoch_builder.
     bind_r (Some (modify_at [''epochs''] (add_group (fst item) epoch_builder) (fst acc)))
       (\<lambda>builder.
     bind_r (fold_r (index_entry e s (snd item)) (ep_timeseries (epoch_at s (snd item)))
               (snd acc)) (\<lambda>finders.
       Some (Inr (builder, finders)))))"

text \<open>
  \<open>builder[dset_path].add_iter_inspect(time_finder)\<close>: the keys of \<open>finders\<close> are the
  pairs that \<open>get_container_location\<close> returns, and no child of a builder is named by a
  pair.
\<close>

definition inspect_step ::
  "(string \<times> string) \<times> TimeFinder \<Rightarrow> group_builder \<Rightarrow> (error + group_builder) option" where
  "inspect_step item builder = Some (Inl (KeyError (snd (fst item))))"

text \<open>
  The series, lines 215 to 220. The group is added under \<open>name\<close>, which is the
  variable of the epoch loop: the last epoch's name, or not bound when the file has no
  epoch.
\<close>

definition series_step ::
  "env \<Rightarrow> store \<Rightarrow> NWBFile \<Rightarrow> string list \<Rightarrow> string \<times> addr \<Rightarrow> group_builder \<Rightarrow>
     (error + group_builder) option" where
  "series_step e s f path item builder =
     bind_r (process module_registry e s (TsRef (snd item))) (\<lambda>ts_group_builder.
       Some (case epochs f of
               [] \<Rightarrow> Inl (UnboundLocalError ''name'')
             | _ \<Rightarrow> modify_at path (add_group (fst (last (epochs f))) ts_group_builder)
                      builder))"

definition modality_step ::
  "env \<Rightarrow> store \<Rightarrow> NWBFile \<Rightarrow> string \<times> (string, addr) dict \<Rightarrow> group_builder \<Rightarrow>
     (error + group_builder) option" where
  "modality_step e s f item builder =
     (case dict_get (ts_locations e) (fst item) of
        None \<Rightarrow> Some (Inl (KeyError (fst item)))
      | Some path \<Rightarrow>
         bind_r (Some (modify_at path Inr builder)) (\<lambda>_.
           fold_r (series_step e s f path) (snd item) builder))"

definition module_step ::
  "env \<Rightarrow> store \<Rightarrow> string \<times> addr \<Rightarrow> group_builder \<Rightarrow> (error + group_builder) option" where
  "module_step e s item builder =
     bind_r (process module_registry e s (ModuleRef (snd item))) (\<lambda>mod_group_builder.
       Some (modify_at [''processing''] (add_group (fst item) mod_group_builder) builder))"

text \<open>\<open>nwb_file\<close>. Its first statement is \<open>builder = GroupBulder()\<close>.\<close>

definition nwb_file :: procedure where
  "nwb_file e s c =
     (case c of
        FileRef a \<Rightarrow>
          bind_r (Some (unbound e ''GroupBulder'' (Inr empty_group))) (\<lambda>b0.
          bind_r (Some (top_level_layout b0)) (\<lambda>b1.
          bind_r (Some (root_datasets e (file_at s a) b1)) (\<lambda>b2.
          bind_r (fold_r (epoch_step e s) (epochs (file_at s a)) (b2, [])) (\<lambda>(b3, finders).
          bind_r (fold_r inspect_step finders b3) (\<lambda>b4.
          bind_r (Some (no_attr e ''timeseries'' (Inr (file_timeseries e (file_at s a)))))
            (\<lambda>timeseries.
          bind_r (fold_r (modality_step e s (file_at s a)) timeseries b4) (\<lambda>b5.
            fold_r (module_step e s) (modules (file_at s a)) b5)))))))
      | _ \<Rightarrow> Some (Inl (AttributeError ''file_identifier'')))"

definition registry :: "ctype \<Rightarrow> procedure list" where
  "registry t = (case t of NWBFile_t \<Rightarrow> [nwb_file] | _ \<Rightarrow> module_registry t)"

section \<open>write.py: the writer\<close>

text \<open>What reaches the backend, in order.\<close>

datatype io_op = OpenFile string | CreateGroup string | CreateDataset string
  | SetAttr string string | CreateSoftLink string string | CreateHardLink string string
  | CreateExternalLink string string string | CloseFile

fun is_link_op :: "io_op \<Rightarrow> bool" where
  "is_link_op (CreateSoftLink n p) = True"
| "is_link_op (CreateHardLink n p) = True"
| "is_link_op (CreateExternalLink n f p) = True"
| "is_link_op _ = False"

fun is_structure_op :: "io_op \<Rightarrow> bool" where
  "is_structure_op (CreateGroup p) = True"
| "is_structure_op (CreateDataset p) = True"
| "is_structure_op (SetAttr p n) = True"
| "is_structure_op _ = False"

text \<open>
  Modelled from the spec: \<open>h5tools.write_group\<close> (not among the sources). It creates
  the group, then its subgroups depth first, then the group's datasets and attributes;
  every link it meets is not created but returned, keyed by its full path.
\<close>

function write_group ::
    "string \<Rightarrow> group_builder \<Rightarrow> io_op list \<times> (string, link_builder) dict"
  and write_groups ::
    "string \<Rightarrow> (string \<times> group_builder) list \<Rightarrow> io_op list \<times> (string, link_builder) dict"
  where
  "write_group path (GroupBuilder g d a l) =
     (case write_groups path g of
        (ops, sub_links) \<Rightarrow>
          (CreateGroup path # ops @ map (\<lambda>x. CreateDataset (path @ ''/'' @ fst x)) d
             @ map (\<lambda>x. SetAttr path (fst x)) a,
           sub_links @ map (\<lambda>x. (path @ ''/'' @ fst x, snd x)) l))"
| "write_groups path [] = ([], [])"
| "write_groups path ((n, b) # rest) =
     (case write_group (path @ ''/'' @ n) b of
        (ops, ls) \<Rightarrow>
          (case write_groups path rest of
             (ops', ls') \<Rightarrow> (ops @ ops', ls @ ls')))"
  by pat_completeness auto
termination
  by (relation "measure (\<lambda>x. case x of
        Inl (p, b) \<Rightarrow> 2 * size b + 1
      | Inr (p, g) \<Rightarrow> 2 * size_list (size_prod (\<lambda>x. 0) size) g)") auto

text \<open>\<open>links.update(tmp_links)\<close>\<close>

definition dict_update :: "('k, 'v) dict \<Rightarrow> ('k, 'v) dict \<Rightarrow> ('k, 'v) dict" where
  "dict_update d new = fold (\<lambda>kv acc. dict_set (fst kv) (snd kv) acc) new d"

text \<open>
  The first loop of \<open>write\<close>: it goes over \<open>builder.groups\<close>, the child groups of the
  root, and nothing else of the root.
\<close>

definition write_structure ::
  "group_builder \<Rightarrow> io_op list \<times> (string, link_builder) dict" where
  "write_structure builder =
     fold (\<lambda>item acc.
             case write_group (fst item) (snd item) of
               (ops, tmp_links) \<Rightarrow> (fst acc @ ops, dict_update (snd acc) tmp_links))
       (groups builder) ([], [])"

text \<open>A path exists in the file once a group, a dataset or a link was created there.\<close>

fun creates :: "string \<Rightarrow> io_op \<Rightarrow> bool" where
  "creates p (CreateGroup q) = (p = q)"
| "creates p (CreateDataset q) = (p = q)"
| "creates p (CreateSoftLink q t) = (p = q)"
| "creates p (CreateHardLink q t) = (p = q)"
| "creates p (CreateExternalLink q f t) = (p = q)"
| "creates p _ = False"

text \<open>
  The second loop: the deferred links. External and soft links are made with
  \<open>h5py.ExternalLink\<close> and \<open>h5py.SoftLink\<close>, and the module imports h5py as \<open>_h5py\<close>;
  a hard link reads its target from the file. An exception ends the loop, with what was
  written so far.
\<close>

fun write_links ::
  "env \<Rightarrow> (string \<times> link_builder) list \<Rightarrow> io_op list \<Rightarrow> error option \<times> io_op list" where
  "write_links e [] trace = (None, trace)"
| "write_links e ((link_name, ExternalLinkBuilder file path) # rest) trace =
     (if reading e = AsWritten then (Some (NameError ''h5py''), trace)
      else write_links e rest (trace @ [CreateExternalLink link_name file path]))"
| "write_links e ((link_name, HardLinkBuilder path) # rest) trace =
     (if list_ex (creates path) trace
      then write_links e rest (trace @ [CreateHardLink link_name path])
      else (Some (KeyError path), trace))"
| "write_links e ((link_name, SoftLinkBuilder path) # rest) trace =
     (if reading e = AsWritten then (Some (NameError ''h5py''), trace)
      else write_links e rest (trace @ [CreateSoftLink link_name path]))"

text \<open>The two loops and \<open>f.close()\<close>, for a builder that \<open>process\<close> has returned.\<close>

definition write_builder :: "env \<Rightarrow> string \<Rightarrow> group_builder \<Rightarrow> error option \<times> io_op list" where
  "write_builder e file_path builder =
     (case write_structure builder of
        (ops, deferred) \<Rightarrow>
          (case write_links e deferred (OpenFile file_path # ops) of
             (Some err, trace) \<Rightarrow> (Some err, trace)
           | (None, trace) \<Rightarrow> (None, trace @ [CloseFile])))"


section \<open>Scenarios\<close>

text \<open>
  Objects as their constructors leave them, and a store in which every address holds
  such an object; the scenarios below put named objects at chosen addresses.
\<close>

definition new_series :: "ts_class \<Rightarrow> string \<Rightarrow> TimeSeries" where
  "new_series c n =
     \<lparr> ts_class = c, ts_name = n, ts_parent = None, ts_data = Unset, ts_timestamps = Unset,
       ts_starting_time = None, ts_rate = None, ts_ancestry = [], ts_help = [],
       ts_description = [], ts_source = [], ts_comments = [], ts_unit = [],
       ts_conversion = None, ts_resolution = None, ts_features = None, ts_units = None,
       ts_electrodes = None, ts_reference_frame = None \<rparr>"

definition new_group :: "string \<Rightarrow> ElectrodeGroup" where
  "new_group n = \<lparr> eg_name = n, eg_parent = None \<rparr>"

definition new_epoch :: "string \<Rightarrow> real \<Rightarrow> real \<Rightarrow> Epoch" where
  "new_epoch n start stop =
     \<lparr> ep_name = n, ep_start_time = start, ep_stop_time = stop, ep_parent = None,
       ep_timeseries = [] \<rparr>"

definition new_store :: store where
  "new_store =
     \<lparr> file_at = (\<lambda>_. NWBFile_init ''test.nwb'' ''test'' ''2017-09-02T00:00:00Z'' ''test.nwb''),
       series_at = (\<lambda>_. new_series TimeSeries_cls []),
       group_at = (\<lambda>_. new_group []),
       epoch_at = (\<lambda>_. new_epoch [] 0 0),
       module_at = (\<lambda>_. \<lparr> mod_name = [], mod_parent = None, mod_interfaces = [] \<rparr>),
       interface_at = (\<lambda>_. \<lparr> if_class = Interface_cls, if_name = [], if_parent = None,
         if_iface_type = [], if_help = [], if_source = [], if_peak_over_rms = None,
         if_num = None, if_times = None \<rparr>) \<rparr>"

text \<open>Three electrode groups with different names, at addresses 0, 1 and 2.\<close>

definition three_groups :: store where
  "three_groups =
     new_store\<lparr>group_at := (group_at new_store)
       (0 := new_group ''shank0'', 1 := new_group ''shank1'', 2 := new_group ''shank2'')\<rparr>"

text \<open>Two different series objects, both named series1, at addresses 0 and 1.\<close>

definition two_series :: store where
  "two_series =
     new_store\<lparr>series_at := (series_at new_store)
       (0 := new_series ElectricalSeries_cls ''series1'',
        1 := new_series ElectricalSeries_cls ''series1'')\<rparr>"

text \<open>Three series with three different names, at addresses 0, 1 and 2.\<close>

definition three_series :: store where
  "three_series =
     new_store\<lparr>series_at := (series_at new_store)
       (0 := new_series ElectricalSeries_cls ''series1'',
        1 := new_series TimeSeries_cls ''stim1'',
        2 := new_series TimeSeries_cls ''templ1'')\<rparr>"

text \<open>
  A sequence of attach calls on one file. Each call is run on the store the one before
  left, whatever it returned: an exception from the epoch comes after the dict was
  assigned.
\<close>

datatype add_op = AddRaw addr "epoch_arg option" | AddStimulus addr "epoch_arg option"
  | AddTemplate addr "epoch_arg option"



fun run_op :: "addr \<Rightarrow> add_op \<Rightarrow> store \<Rightarrow> store" where
  "run_op self (AddRaw t e) s = snd (add_raw_timeseries self t e s)"
| "run_op self (AddStimulus t e) s = snd (add_stimulus self t e s)"
| "run_op self (AddTemplate t e) s = snd (add_stimulus_template self t e s)"

definition run_ops :: "addr \<Rightarrow> add_op list \<Rightarrow> store \<Rightarrow> store" where
  "run_ops self ops s = fold (run_op self) ops s"

text \<open>
  One file at address 0 with series1 attached as raw data, stim1 as stimulus and templ1
  as stimulus template.
\<close>

definition attached :: store where
  "attached = run_ops 0 [AddRaw 0 None, AddStimulus 1 None, AddTemplate 2 None] three_series"

text \<open>
  One file at address 0 with two raw series: series1 holds values, and the \<open>data\<close> of
  series2 is series1.
\<close>

definition linked_series :: store where
  "linked_series =
     run_ops 0 [AddRaw 0 None, AddRaw 1 None]
       (new_store\<lparr>series_at := (series_at new_store)
          (0 := (new_series ElectricalSeries_cls ''series1'')\<lparr>ts_data := Values [1, 2, 3]\<rparr>,
           1 := (new_series ElectricalSeries_cls ''series2'')\<lparr>ts_data := SeriesLink 0\<rparr>)\<rparr>)"

text \<open>The parameters of a run, under either reading.\<close>

definition example_env :: "reading \<Rightarrow> env" where
  "example_env r =
     \<lparr> reading = r, FILE_VERSION_STR = ''NWB-1.0.4'', default_conversion = 1,
       default_resolution = 0, clock = ''Sat Sep  2 00:00:00 2017'',
       ts_locations =
         [(''raw_data'', [''acquisition'', ''timeseries'']),
          (''stimulus'', [''stimulus'', ''presentation'']),
          (''stimulus_template'', [''stimulus'', ''template''])],
       file_timeseries =
         (\<lambda>f. [(''raw_data'', raw_data f), (''stimulus'', stimulus f),
               (''stimulus_template'', stimulus_template f)]),
       epoch_process = (\<lambda>s a. Inr empty_group) \<rparr>"

text \<open>
  The end-to-end scenario of the interval pass: a file with the raw ElectricalSeries
  series1 (100 samples, rate 1.0, starting time 0.0) and the epoch ep1 over [10.0, 20.0]
  that references series1.
\<close>

definition epoch_scenario :: store where
  "epoch_scenario =
     snd (set_epoch_timeseries 0 (EpochName ''ep1'') (TsName ''series1'')
       (snd (add_raw_timeseries 0 0 None
         (new_store\<lparr>
            file_at := (file_at new_store)
              (0 := (NWBFile_init ''test.nwb'' ''test'' ''2017-09-02T00:00:00Z'' ''test.nwb'')
                 \<lparr>epochs := [(''ep1'', 0)]\<rparr>),
            series_at := (series_at new_store)
              (0 := (new_series ElectricalSeries_cls ''series1'')
                 \<lparr>ts_data := Values (map real [0..<100]), ts_starting_time := Some 0,
                  ts_rate := Some 1\<rparr>),
            epoch_at := (epoch_at new_store)
              (0 := (new_epoch ''ep1'' 10 20)\<lparr>ep_parent := Some (FileRef 0)\<rparr>)\<rparr>))))"






section \<open>Properties of file.py\<close>

subsection \<open>Electrode group indices\<close>

lemma update_fresh: "k \<notin> fst ` set al \<Longrightarrow> AList.update k v al = al @ [(k, v)]"
  by (induction al) auto

lemma update_zip_fresh:
  "k \<notin> set ns \<Longrightarrow> AList.update k v (zip ns ms) = zip ns ms @ [(k, v)]"
  by (rule update_fresh) (auto dest: set_zip_leftD)

lemma map_of_zip_fresh: "k \<notin> set ns \<Longrightarrow> map_of (zip ns ms) k = None"
  by (auto simp: map_of_eq_None_iff dest: set_zip_leftD)

lemma set_electrode_group_idx:
  assumes "ec_electrode_idx (file_at s self) = zip ns [0..<length ns]"
    and "eg_name (group_at s g) \<notin> set ns"
    and "set_electrode_group self g s = (r, s')"
  shows "r = Inr (length ns)"
    and "ec_electrode_idx (file_at s' self) = zip (ns @ [eg_name (group_at s g)]) [0..<Suc (length ns)]"
    and "eg_name (group_at s' a) = eg_name (group_at s a)"
  using assms
  by (auto simp: set_electrode_group_def Let_def dict_set_def dict_len_def dict_get_def
      update_zip_fresh map_of_zip_fresh split: option.splits)

lemma register_all_idx:
  assumes "ec_electrode_idx (file_at s self) = zip ns [0..<length ns]"
    and "distinct (ns @ map (\<lambda>g. eg_name (group_at s g)) gs)"
    and "register_all self gs s = (rs, s')"
  shows "rs = map Inr [length ns..<length ns + length gs] \<and>
         ec_electrode_idx (file_at s' self) =
           zip (ns @ map (\<lambda>g. eg_name (group_at s g)) gs) [0..<length ns + length gs] \<and>
         (\<forall>a. eg_name (group_at s' a) = eg_name (group_at s a))"
  using assms
proof (induction gs arbitrary: s ns rs s')
  case Nil
  then show ?case by simp
next
  case (Cons g gs)
  obtain r s1 where step: "set_electrode_group self g s = (r, s1)"
    by (cases "set_electrode_group self g s")
  obtain rs1 s2 where rest: "register_all self gs s1 = (rs1, s2)"
    by (cases "register_all self gs s1")
  from Cons.prems(3) step rest have rs: "rs = r # rs1" and s': "s' = s2"
    by auto
  from Cons.prems(2) have fresh: "eg_name (group_at s g) \<notin> set ns"
    by auto
  note one = set_electrode_group_idx [OF Cons.prems(1) fresh step]
  have names: "(\<lambda>g. eg_name (group_at s1 g)) = (\<lambda>g. eg_name (group_at s g))"
    using one(3) by auto
  have inv1: "ec_electrode_idx (file_at s1 self) =
      zip (ns @ [eg_name (group_at s g)]) [0..<length (ns @ [eg_name (group_at s g)])]"
    using one(2) by simp
  have dist1: "distinct ((ns @ [eg_name (group_at s g)]) @ map (\<lambda>g. eg_name (group_at s1 g)) gs)"
    using Cons.prems(2) by (simp add: names)
  note ih = Cons.IH [OF inv1 dist1 rest]
  have upt: "[length ns..<length ns + length (g # gs)] =
      length ns # [Suc (length ns)..<Suc (length ns) + length gs]"
  proof -
    have "length ns + length (g # gs) = Suc (length ns) + length gs" by simp
    then show ?thesis by (simp only:) (rule upt_conv_Cons, simp)
  qed
  have "rs = map Inr [length ns..<length ns + length (g # gs)]"
    using ih one(1) rs unfolding upt by (simp del: upt_Suc)
  moreover have "ec_electrode_idx (file_at s' self) =
      zip (ns @ map (\<lambda>g. eg_name (group_at s g)) (g # gs)) [0..<length ns + length (g # gs)]"
    using ih s' by (simp add: names del: upt_Suc)
  moreover have "\<forall>a. eg_name (group_at s' a) = eg_name (group_at s a)"
    using ih one(3) s' by simp
  ultimately show ?case by blast
qed

text \<open>
  C5. Registering electrode groups with different names on a file that has handed out no
  index yet: the call for the group at position \<open>n\<close> of the sequence returns \<open>n\<close>
  (the third group gets 2), and afterwards \<open>get_electrode_group_idx\<close> gives \<open>n\<close> for
  the group's name and for the group object alike.
\<close>

theorem electrode_group_index_is_insertion_order:
  assumes "ec_electrode_idx (file_at s self) = []"
    and "distinct (map (\<lambda>g. eg_name (group_at s g)) gs)"
    and "register_all self gs s = (rs, s')"
    and "n < length gs"
  shows "rs ! n = Inr n \<and>
         get_electrode_group_idx self (GroupName (eg_name (group_at s (gs ! n)))) s' = Some n \<and>
         get_electrode_group_idx self (GroupObj (gs ! n)) s' = Some n"
proof -
  let ?names = "map (\<lambda>g. eg_name (group_at s g)) gs"
  have inv: "ec_electrode_idx (file_at s self) = zip [] [0..<length ([]::string list)]"
    using assms(1) by simp
  have dist: "distinct ([] @ ?names)"
    using assms(2) by simp
  from register_all_idx [OF inv dist assms(3)]
  have rs: "rs = map Inr [0..<length gs]"
    and idx: "ec_electrode_idx (file_at s' self) = zip ?names [0..<length gs]"
    and names: "\<And>a. eg_name (group_at s' a) = eg_name (group_at s a)"
    by simp_all
  have "map_of (zip ?names [0..<length gs]) (?names ! n) = Some ([0..<length gs] ! n)"
    using assms(2) assms(4) by (intro map_of_zip_nth) simp_all
  then have look: "dict_get (ec_electrode_idx (file_at s' self)) (eg_name (group_at s (gs ! n))) = Some n"
    using assms(4) by (simp add: idx dict_get_def)
  show ?thesis
    using rs look assms(4) by (simp add: get_electrode_group_idx_def names)
qed

theorem electrode_group_index_is_insertion_order_witness:
  "fst (register_all 0 [0, 1, 2] three_groups) ! 2 = Inr 2 \<and>
   get_electrode_group_idx 0 (GroupName ''shank2'') (snd (register_all 0 [0, 1, 2] three_groups)) = Some 2 \<and>
   get_electrode_group_idx 0 (GroupObj 2) (snd (register_all 0 [0, 1, 2] three_groups)) = Some 2"
  using electrode_group_index_is_insertion_order
    [of three_groups 0 "[0, 1, 2]" "fst (register_all 0 [0, 1, 2] three_groups)"
        "snd (register_all 0 [0, 1, 2] three_groups)" 2]
  by (simp add: three_groups_def new_store_def new_group_def NWBFile_init_def)

lemma set_electrode_group_keys:
  assumes "set_electrode_group self g s = (r, s')"
  shows "fst ` set (ec_electrode_idx (file_at s' self)) =
           insert (eg_name (group_at s g)) (fst ` set (ec_electrode_idx (file_at s self)))"
    and "eg_name (group_at s' a) = eg_name (group_at s a)"
proof -
  have "ec_electrode_idx (file_at s' self) =
      AList.update (eg_name (group_at s g)) (length (ec_electrode_idx (file_at s self)))
        (ec_electrode_idx (file_at s self))"
    using assms by (auto simp: set_electrode_group_def Let_def dict_set_def dict_len_def)
  then show "fst ` set (ec_electrode_idx (file_at s' self)) =
           insert (eg_name (group_at s g)) (fst ` set (ec_electrode_idx (file_at s self)))"
    by (simp add: AList.dom_update)
  show "eg_name (group_at s' a) = eg_name (group_at s a)"
    using assms by (auto simp: set_electrode_group_def Let_def)
qed

lemma register_all_keys:
  assumes "register_all self gs s = (rs, s')"
  shows "fst ` set (ec_electrode_idx (file_at s' self)) =
           fst ` set (ec_electrode_idx (file_at s self)) \<union> (\<lambda>g. eg_name (group_at s g)) ` set gs \<and>
         (\<forall>a. eg_name (group_at s' a) = eg_name (group_at s a))"
  using assms
proof (induction gs arbitrary: s rs s')
  case Nil
  then show ?case by simp
next
  case (Cons g gs)
  obtain r s1 where step: "set_electrode_group self g s = (r, s1)"
    by (cases "set_electrode_group self g s")
  obtain rs1 s2 where rest: "register_all self gs s1 = (rs1, s2)"
    by (cases "register_all self gs s1")
  from Cons.prems step rest have s': "s' = s2"
    by auto
  note one = set_electrode_group_keys [OF step]
  from Cons.IH [OF rest] show ?case
    unfolding s' by (auto simp: one)
qed

text \<open>
  C10. After any sequence of registrations on a file that had no index before, a name that
  was not registered, and a group object whose name was not registered, get \<open>None\<close>
  from \<open>get_electrode_group_idx\<close>. The function has no raising branch: its result is a
  plain optional index.
\<close>

theorem unregistered_electrode_group_has_no_index:
  assumes "ec_electrode_idx (file_at s self) = []"
    and "register_all self gs s = (rs, s')"
  shows "(n \<notin> (\<lambda>g. eg_name (group_at s g)) ` set gs \<longrightarrow>
            get_electrode_group_idx self (GroupName n) s' = None) \<and>
         (eg_name (group_at s g) \<notin> (\<lambda>g. eg_name (group_at s g)) ` set gs \<longrightarrow>
            get_electrode_group_idx self (GroupObj g) s' = None)"
proof -
  from register_all_keys [OF assms(2)] assms(1)
  have keys: "fst ` set (ec_electrode_idx (file_at s' self)) = (\<lambda>g. eg_name (group_at s g)) ` set gs"
    and names: "\<And>a. eg_name (group_at s' a) = eg_name (group_at s a)"
    by simp_all
  have "map_of (ec_electrode_idx (file_at s' self)) k = None"
    if "k \<notin> (\<lambda>g. eg_name (group_at s g)) ` set gs" for k
    using that keys by (simp add: map_of_eq_None_iff)
  then show ?thesis
    by (simp add: get_electrode_group_idx_def dict_get_def names)
qed

theorem unregistered_electrode_group_has_no_index_witness:
  "get_electrode_group_idx 0 (GroupName ''shank2'') (snd (register_all 0 [0, 1] three_groups)) = None \<and>
   get_electrode_group_idx 0 (GroupObj 2) (snd (register_all 0 [0, 1] three_groups)) = None"
  using unregistered_electrode_group_has_no_index
    [of three_groups 0 "[0, 1]" "fst (register_all 0 [0, 1] three_groups)"
        "snd (register_all 0 [0, 1] three_groups)" "''shank2''" 2]
  by (simp add: three_groups_def new_store_def new_group_def NWBFile_init_def)

subsection \<open>Attaching time series: what the epoch step leaves alone\<close>

lemma add_all_timeseries_keeps:
  "file_at (add_all_timeseries eps tss s) = file_at s \<and>
   series_at (add_all_timeseries eps tss s) = series_at s"
proof -
  have inner: "file_at (fold (\<lambda>ts s''. add_timeseries ep ts s'') tss s) = file_at s \<and>
      series_at (fold (\<lambda>ts s''. add_timeseries ep ts s'') tss s) = series_at s" for ep s
    by (induction tss arbitrary: s) (simp_all add: add_timeseries_def)
  show ?thesis
    unfolding add_all_timeseries_def
    by (induction eps arbitrary: s) (simp_all add: inner)
qed

lemma set_epoch_timeseries_keeps:
  assumes "set_epoch_timeseries self ep t s = (r, s')"
  shows "file_at s' = file_at s" and "series_at s' = series_at s"
  using assms
  by (auto simp: set_epoch_timeseries_def add_all_timeseries_keeps split: sum.splits)

lemma get_epoch_error:
  "get_epoch f a = Inl e \<Longrightarrow> (\<forall>m. e \<noteq> DuplicateNameError m)"
  by (cases a) (auto split: option.splits)

lemma get_timeseries_error:
  "get_timeseries f a = Inl e \<Longrightarrow> (\<forall>m. e \<noteq> DuplicateNameError m)"
  by (cases a) (auto split: option.splits)

lemma map_result_error:
  assumes "\<And>x e. g x = Inl e \<Longrightarrow> (\<forall>m. e \<noteq> DuplicateNameError m)"
    and "map_result g xs = Inl e"
  shows "\<forall>m. e \<noteq> DuplicateNameError m"
  using assms(2)
  by (induction xs) (auto split: sum.splits dest: assms(1))

lemma map_get_epoch_error:
  "map_result (get_epoch f) xs = Inl e \<Longrightarrow> \<forall>m. e \<noteq> DuplicateNameError m"
  by (erule map_result_error [rotated]) (erule get_epoch_error)

lemma map_get_timeseries_error:
  "map_result (get_timeseries f) xs = Inl e \<Longrightarrow> \<forall>m. e \<noteq> DuplicateNameError m"
  by (erule map_result_error [rotated]) (erule get_timeseries_error)

lemma set_epoch_timeseries_error:
  assumes "set_epoch_timeseries self ep t s = (Inl e, s')"
  shows "\<forall>m. e \<noteq> DuplicateNameError m"
proof -
  let ?eps = "case ep of EpochList es \<Rightarrow> map_result (get_epoch (file_at s self)) es
                | _ \<Rightarrow> map_result (get_epoch (file_at s self)) [ep]"
  let ?tss = "case t of TsList ts \<Rightarrow> map_result (get_timeseries (file_at s self)) ts
                | _ \<Rightarrow> map_result (get_timeseries (file_at s self)) [t]"
  have eps: "\<exists>xs. ?eps = map_result (get_epoch (file_at s self)) xs"
    by (cases ep; simp del: map_result.simps; blast)
  have tss: "\<exists>xs. ?tss = map_result (get_timeseries (file_at s self)) xs"
    by (cases t; simp del: map_result.simps; blast)
  from assms have "?eps = Inl e \<or> ?tss = Inl e"
    unfolding set_epoch_timeseries_def by (auto split: sum.splits)
  then show ?thesis
    using eps tss map_get_epoch_error map_get_timeseries_error by metis
qed

lemma set_timeseries_effect:
  assumes "set_timeseries self d ts ep s = (r, s')"
  shows "get_ts_dict d' (file_at s' self) =
           (if d' = d then dict_set (ts_name (series_at s ts)) ts (get_ts_dict d' (file_at s self))
            else get_ts_dict d' (file_at s self))"
    and "ts_name (series_at s' a) = ts_name (series_at s a)"
    and "\<forall>m. r \<noteq> Inl (DuplicateNameError m)"
    and "ep = None \<Longrightarrow> r = Inr ()"
proof -
  define s2 where "s2 = s\<lparr>file_at := (file_at s)
        (self := put_ts_dict d (ts_name (series_at s ts)) ts (file_at s self)),
      series_at := (series_at s)(ts := (series_at s ts)\<lparr>ts_parent := Some (FileRef self)\<rparr>)\<rparr>"
  have f2: "get_ts_dict d' (file_at s2 self) =
           (if d' = d then dict_set (ts_name (series_at s ts)) ts (get_ts_dict d' (file_at s self))
            else get_ts_dict d' (file_at s self))"
    unfolding s2_def by (cases d; cases d') simp_all
  have n2: "ts_name (series_at s2 a) = ts_name (series_at s a)"
    unfolding s2_def by simp
  from assms have cases: "(Inr (), s2) = (r, s') \<or>
      (\<exists>e. set_epoch_timeseries self e (TsObj ts) s2 = (r, s'))"
    unfolding set_timeseries_def Let_def s2_def by (auto split: option.splits if_splits)
  then have keep: "file_at s' = file_at s2 \<and> series_at s' = series_at s2"
    using set_epoch_timeseries_keeps by (metis prod.inject)
  show "get_ts_dict d' (file_at s' self) =
           (if d' = d then dict_set (ts_name (series_at s ts)) ts (get_ts_dict d' (file_at s self))
            else get_ts_dict d' (file_at s self))"
    using f2 keep by simp
  show "ts_name (series_at s' a) = ts_name (series_at s a)"
    using n2 keep by simp
  show "\<forall>m. r \<noteq> Inl (DuplicateNameError m)"
    using cases set_epoch_timeseries_error by (metis Inl_Inr_False prod.inject)
  show "r = Inr ()" if "ep = None"
    using assms that unfolding set_timeseries_def Let_def by simp
qed

subsection \<open>Attaching a name twice\<close>

lemma update_present_length:
  "k \<in> fst ` set al \<Longrightarrow> length (AList.update k v al) = length al"
  by (induction al) auto

text \<open>
  C4, as stated, fails. With series1 attached to the raw data, attaching a second series
  of that name returns normally, and the name now maps to the second series.
\<close>

theorem duplicate_raw_name_counterexample:
  "dict_get (raw_data (file_at (snd (add_raw_timeseries 0 0 None two_series)) 0)) ''series1'' = Some 0 \<and>
   ts_name (series_at (snd (add_raw_timeseries 0 0 None two_series)) 1) = ''series1'' \<and>
   fst (add_raw_timeseries 0 1 None (snd (add_raw_timeseries 0 0 None two_series))) = Inr () \<and>
   dict_get (raw_data (file_at
       (snd (add_raw_timeseries 0 1 None (snd (add_raw_timeseries 0 0 None two_series)))) 0))
     ''series1'' = Some 1"
  by (simp add: add_raw_timeseries_def set_timeseries_def Let_def two_series_def new_store_def
      new_series_def NWBFile_init_def dict_get_def dict_set_def)

text \<open>
  C4, amended. Attaching a series to the raw data under a name that is present raises no
  DuplicateNameError (with no epoch argument it raises nothing): the series given replaces
  the one attached before under that name, and the number of entries stays the same.
\<close>

theorem duplicate_raw_name_replaces:
  assumes "dict_in (ts_name (series_at s ts)) (raw_data (file_at s self))"
    and "add_raw_timeseries self ts epoch s = (r, s')"
  shows "(\<forall>m. r \<noteq> Inl (DuplicateNameError m)) \<and>
         (epoch = None \<longrightarrow> r = Inr ()) \<and>
         dict_get (raw_data (file_at s' self)) (ts_name (series_at s ts)) = Some ts \<and>
         dict_len (raw_data (file_at s' self)) = dict_len (raw_data (file_at s self))"
proof -
  from assms(2) have st: "set_timeseries self RawData ts epoch s = (r, s')"
    by (simp add: add_raw_timeseries_def)
  from set_timeseries_effect(1) [OF st, of RawData]
  have d: "raw_data (file_at s' self) =
      dict_set (ts_name (series_at s ts)) ts (raw_data (file_at s self))"
    by simp
  from assms(1) have "ts_name (series_at s ts) \<in> fst ` set (raw_data (file_at s self))"
    by (simp add: dict_in_def map_of_eq_None_iff)
  then have "dict_len (raw_data (file_at s' self)) = dict_len (raw_data (file_at s self))"
    by (simp add: d dict_len_def dict_set_def update_present_length)
  moreover have "dict_get (raw_data (file_at s' self)) (ts_name (series_at s ts)) = Some ts"
    by (simp add: d dict_get_def dict_set_def AList.update_conv')
  ultimately show ?thesis
    using set_timeseries_effect(3,4) [OF st] by blast
qed

theorem duplicate_raw_name_replaces_witness:
  "fst (add_raw_timeseries 0 1 None (snd (add_raw_timeseries 0 0 None two_series))) = Inr () \<and>
   dict_get (raw_data (file_at
       (snd (add_raw_timeseries 0 1 None (snd (add_raw_timeseries 0 0 None two_series)))) 0))
     ''series1'' = Some 1 \<and>
   dict_len (raw_data (file_at
       (snd (add_raw_timeseries 0 1 None (snd (add_raw_timeseries 0 0 None two_series)))) 0)) = 1"
  using duplicate_raw_name_replaces
    [of "snd (add_raw_timeseries 0 0 None two_series)" 1 0 None
        "fst (add_raw_timeseries 0 1 None (snd (add_raw_timeseries 0 0 None two_series)))"
        "snd (add_raw_timeseries 0 1 None (snd (add_raw_timeseries 0 0 None two_series)))"]
  by (simp add: add_raw_timeseries_def set_timeseries_def Let_def two_series_def new_store_def
      new_series_def NWBFile_init_def dict_get_def dict_set_def dict_in_def dict_len_def)

subsection \<open>The three namespaces\<close>






section \<open>Properties of write.py\<close>

subsection \<open>The path resolver\<close>

text \<open>
  C3. The code at an input of the claim: templ1 is in the stimulus-template namespace of
  the file at address 0. As written, the resolver raises AttributeError for
  \<open>is_rawdata\<close>. With that name read as \<open>is_raw_data\<close> it places the series under
  \<open>stimulus/templates\<close>, while the layout that \<open>nwb_file\<close> declares has the group
  \<open>template\<close> under \<open>stimulus\<close>.
\<close>

theorem template_series_location:
  "relative_location (example_env AsWritten) attached (FileRef 0) (TsRef 2) =
     Inl (AttributeError ''is_rawdata'') \<and>
   relative_location (example_env AsMeant) attached (FileRef 0) (TsRef 2) =
     Inr ''stimulus/templates/templ1'' \<and>
   is_stimulus_template 0 2 attached \<and>
   (case top_level_layout empty_group of
      Inl err \<Rightarrow> None
    | Inr b \<Rightarrow> map_option (\<lambda>g. map fst (groups g)) (map_of (groups b) ''stimulus'')) =
     Some [''template'', ''presentation'']"
  by code_simp

text \<open>
  The loop of \<open>get_container_location\<close> returns either what it was started with or a
  container that has a parent: so the function returns a location only in a store where
  some file has a parent.
\<close>

lemma parent_walk_result:
  assumes "parent_walk e s cur tc loc = Some r"
  shows "\<forall>tc' loc'. r = Inr (tc', loc') \<longrightarrow> (tc' = tc \<and> loc' = loc) \<or> parent_of s tc' \<noteq> None"
  using assms
proof (induct rule: parent_walk.raw_induct [rotated 1, consumes 1])
  case (1 walk e s cur tc loc r)
  show ?case
  proof (cases "parent_of s cur")
    case None
    with 1(2) show ?thesis by auto
  next
    case (Some p)
    show ?thesis
    proof (cases "unbound e ''_Hdf5ContainerRenderer__relative_location'' (relative_location e s p cur)")
      case (Inl err)
      with Some 1(2) show ?thesis by auto
    next
      case (Inr seg)
      with Some 1(2) have "walk e s p cur (loc @ [seg]) = Some r" by simp
      from 1(1) [OF this]
      have ih: "\<forall>tc' loc'. r = Inr (tc', loc') \<longrightarrow>
          (tc' = cur \<and> loc' = loc @ [seg]) \<or> parent_of s tc' \<noteq> None" .
      show ?thesis
      proof (intro allI impI)
        fix tc' loc'
        assume "r = Inr (tc', loc')"
        with ih have "(tc' = cur \<and> loc' = loc @ [seg]) \<or> parent_of s tc' \<noteq> None"
          by blast
        with Some show "(tc' = tc \<and> loc' = loc) \<or> parent_of s tc' \<noteq> None"
          by auto
      qed
    qed
  qed
qed

lemma get_container_location_returns:
  assumes "get_container_location e s c = Some (Inr x)"
  shows "\<exists>f. file_parent (file_at s f) \<noteq> None"
proof -
  from assms obtain tc loc where w: "parent_walk e s c c [] = Some (Inr (tc, loc))"
    by (auto simp: get_container_location_def split: option.splits sum.splits)
  from assms w obtain f where tc: "tc = FileRef f"
    by (auto simp: get_container_location_def split: ref.splits)
  from assms w tc have "loc \<noteq> []"
    by (auto simp: get_container_location_def unbound_def posixpath_join_def split: if_splits)
  with parent_walk_result [OF w] have "parent_of s tc \<noteq> None" by auto
  with tc show ?thesis by (auto simp: parent_of_def)
qed

subsection \<open>Links between series\<close>

text \<open>
  C2. The code at an input of the claim: series2, whose \<open>data\<close> is series1, both
  attached to the file at address 0. As written, \<open>time_series\<close> raises NameError at
  \<open>GroupBuilder()\<close> and the resolver at the bare \<open>__relative_location\<close>; with the
  names bound, the resolver ends with \<open>top_container\<close> at the series, not at the file,
  and raises. No link is emitted.
\<close>

theorem linked_data_raises:
  "ts_data (series_at linked_series 1) = SeriesLink 0 \<and>
   ts_parent (series_at linked_series 0) = Some (FileRef 0) \<and>
   ts_parent (series_at linked_series 1) = Some (FileRef 0) \<and>
   time_series (example_env AsWritten) linked_series 1 = Some (Inl (NameError ''GroupBuilder'')) \<and>
   get_container_location (example_env AsWritten) linked_series (TsRef 1) =
     Some (Inl (NameError ''_Hdf5ContainerRenderer__relative_location'')) \<and>
   get_container_location (example_env AsMeant) linked_series (TsRef 1) =
     Some (Inl (Exception ''highest container not a file'')) \<and>
   time_series (example_env AsMeant) linked_series 1 =
     Some (Inl (Exception ''highest container not a file''))"
  by code_simp

text \<open>
  In a store where no file has a parent, a series whose \<open>data\<close> is another series is
  never rendered, under either reading.
\<close>

lemma linked_data_never_renders:
  assumes "\<forall>f. file_parent (file_at s f) = None"
    and "ts_data (series_at s c) = SeriesLink r"
  shows "time_series e s c \<noteq> Some (Inr b)"
proof -
  have "get_container_location e s (TsRef c) \<noteq> Some (Inr x)" for x
  proof
    assume "get_container_location e s (TsRef c) = Some (Inr x)"
    from get_container_location_returns [OF this] assms(1) show False by auto
  qed
  then have "set_data e s c b' \<noteq> Some (Inr b'')" for b' b''
    using assms(2)
    by (auto simp: set_data_def bind_r_def split: option.splits sum.splits)
  then show ?thesis
    by (auto simp: time_series_def bind_r_def Let_def split: option.splits sum.splits)
qed

subsection \<open>The interval pass\<close>

text \<open>
  For an entry that lacks its index the pass never gets to a finder: whatever the
  resolver returns, \<open>TimeFinder()\<close> raises.
\<close>

lemma index_entry_never_succeeds:
  assumes "\<not> (truthy_nat (ets_count (snd entry)) \<and> truthy_nat (ets_idx_start (snd entry)))"
  shows "index_entry e s ep entry fs \<noteq> Some (Inr fs')"
  using assms
  by (auto simp: index_entry_def bind_r_def TimeFinder_init_def split: option.splits sum.splits)

text \<open>
  C1. The code at the scenario of the claim: ep1 over [10.0, 20.0] references series1 and
  its membership record has no count and no start index. Rendering the file raises under
  either reading, the constructor \<open>TimeFinder()\<close> that the pass calls raises, and a
  TimeFinder applied to the samples returns None: no record is computed.
\<close>

theorem interval_pass_at_scenario:
  "ep_timeseries (epoch_at epoch_scenario 0) =
     [(''series1'', \<lparr>ets_count = None, ets_idx_start = None, ets_timeseries = 0\<rparr>)] \<and>
   nwb_file (example_env AsWritten) epoch_scenario (FileRef 0) =
     Some (Inl (NameError ''GroupBulder'')) \<and>
   nwb_file (example_env AsMeant) epoch_scenario (FileRef 0) =
     Some (Inl (Exception ''highest container not a file'')) \<and>
   TimeFinder_init None = Inl (TypeError ''__init__() missing 1 required positional argument'') \<and>
   TimeFinder_call \<lparr>time_intervals = [(10, 20)]\<rparr> (map real [0..<100]) = None"
  by code_simp

subsection \<open>Render procedures along the ancestor chain\<close>

text \<open>
  C7. \<open>process\<close> as written raises NameError for every table of procedures, every store
  and every container: it never gets to collect, run or merge.
\<close>

theorem process_raises_as_written:
  "process reg (e\<lparr>reading := AsWritten\<rparr>) s c = Some (Inl (NameError ''HDFContainerRenderer''))"
  by (simp add: process_def bind_r_def unbound_def)

text \<open>
  With the name bound, \<open>process\<close> runs the procedures of the ancestor chain from the
  most basic class to the class of the container and merges the results into the first.
\<close>

lemma process_as_meant:
  "process reg (e\<lparr>reading := AsMeant\<rparr>) s c =
     bind_r (run_procedures (concat (map reg (rev (butlast (mro (class_of s c))))))
               (e\<lparr>reading := AsMeant\<rparr>) s c)
       (\<lambda>result. case result of [] \<Rightarrow> Some (Inl IndexError)
                 | ret # rest \<Rightarrow> Some (deep_update_all ret rest))"
  by (simp add: process_def bind_r_def unbound_def base_process_def collect_procedures_def
      get_object_properties_def)

lemma electrical_series_order:
  "ts_class (series_at s a) = ElectricalSeries_cls \<Longrightarrow>
     get_object_properties s (TsRef a) = [NWBContainer_t, TimeSeries_t, ElectricalSeries_t]"
  by (simp add: get_object_properties_def class_of_def)

subsection \<open>The writer\<close>

text \<open>
  What \<open>write\<close> writes, it writes in two phases: first groups, datasets and attributes,
  then links. The datasets, attributes and links of the root itself play no part.
\<close>

lemma write_group_structure_only:
  "list_all is_structure_op (fst (write_group p b))"
  "list_all is_structure_op (fst (write_groups p g))"
  by (induction p b and p g rule: write_group_write_groups.induct)
     (auto simp: list_all_iff split: prod.splits)

lemma write_structure_structure_only:
  "list_all is_structure_op (fst (write_structure b))"
proof -
  have "list_all is_structure_op (fst acc) \<Longrightarrow>
      list_all is_structure_op (fst (fold (\<lambda>item acc.
             case write_group (fst item) (snd item) of
               (ops, tmp_links) \<Rightarrow> (fst acc @ ops, dict_update (snd acc) tmp_links)) gs acc))"
    for gs and acc :: "io_op list \<times> (string, link_builder) dict"
  proof (induction gs arbitrary: acc)
    case Nil
    then show ?case by simp
  next
    case (Cons g gs)
    show ?case
      using write_group_structure_only(1) [of "fst g" "snd g"] Cons.prems
      by (auto intro!: Cons.IH split: prod.splits)
  qed
  then show ?thesis by (simp add: write_structure_def)
qed

lemma write_links_appends_links:
  "write_links e ls tr = (r, tr') \<Longrightarrow> \<exists>new. tr' = tr @ new \<and> list_all is_link_op new"
proof (induction e ls tr arbitrary: r tr' rule: write_links.induct)
  case (1 e trace)
  then show ?case by simp
next
  case (2 e link_name fl path rest trace)
  then show ?case
    by (cases "reading e = AsWritten") (fastforce)+
next
  case (3 e link_name path rest trace)
  then show ?case
    by (cases "list_ex (creates path) trace") (fastforce)+
next
  case (4 e link_name path rest trace)
  then show ?case
    by (cases "reading e = AsWritten") (fastforce)+
qed

text \<open>What is written is written in two phases: the structure, then the links.\<close>

lemma write_builder_phases:
  "\<exists>ops new fin. snd (write_builder e file_path b) = OpenFile file_path # ops @ new @ fin \<and>
     list_all is_structure_op ops \<and> list_all is_link_op new \<and> (fin = [] \<or> fin = [CloseFile])"
proof -
  obtain ops deferred where ws: "write_structure b = (ops, deferred)"
    by (cases "write_structure b")
  obtain r tr where wl: "write_links e deferred (OpenFile file_path # ops) = (r, tr)"
    by (cases "write_links e deferred (OpenFile file_path # ops)")
  from write_links_appends_links [OF wl] obtain new where
    new: "tr = (OpenFile file_path # ops) @ new" "list_all is_link_op new"
    by blast
  have ops: "list_all is_structure_op ops"
    using write_structure_structure_only [of b] ws by simp
  show ?thesis
  proof (cases r)
    case None
    then have "snd (write_builder e file_path b) = OpenFile file_path # ops @ new @ [CloseFile]"
      using ws wl new(1) by (simp add: write_builder_def)
    with ops new(2) show ?thesis by blast
  next
    case (Some err)
    then have "snd (write_builder e file_path b) = OpenFile file_path # ops @ new @ []"
      using ws wl new(1) by (simp add: write_builder_def)
    with ops new(2) show ?thesis by blast
  qed
qed

lemma root_level_is_not_written:
  "write_builder e file_path (GroupBuilder g d a l) = write_builder e file_path (GroupBuilder g [] [] [])"
  by (simp add: write_builder_def write_structure_def)


subsection \<open>Rendering twice\<close>
















































end
